theory Spec2Isabelle
  imports Complex_Main
begin

section \<open>Python strings\<close>

text \<open>
  A Python \<^verbatim>\<open>str\<close> is a sequence of code points. The model reads a \<^typ>\<open>char\<close> as a
  code point below 256 (ASCII and the Latin-1 block), and the classification functions
  below are Python's on that range. Three code points of the range, the superscripts
  \<^verbatim>\<open>U+00B2\<close>, \<^verbatim>\<open>U+00B3\<close> and \<^verbatim>\<open>U+00B9\<close>, satisfy \<^verbatim>\<open>str.isdigit\<close> and are refused by
  \<^verbatim>\<open>int()\<close>; the model keeps them, since they are what makes the
  \<^verbatim>\<open>try\<close>/\<^verbatim>\<open>except\<close> of the source reachable with a non-empty digit string.
\<close>

datatype py_error = ValueError | IndexError | OSError

definition code :: "char \<Rightarrow> nat" where
  "code c = of_char c"

definition nl :: string where
  "nl = [CHR 0x0A]"

definition isdecimal :: "char \<Rightarrow> bool" where
  "isdecimal c = (48 \<le> code c \<and> code c \<le> 57)"

definition isdigit :: "char \<Rightarrow> bool" where
  "isdigit c = (isdecimal c \<or> code c = 178 \<or> code c = 179 \<or> code c = 185)"

definition isspace :: "char \<Rightarrow> bool" where
  "isspace c = ((9 \<le> code c \<and> code c \<le> 13) \<or> (28 \<le> code c \<and> code c \<le> 32)
     \<or> code c = 133 \<or> code c = 160)"

definition lower_char :: "char \<Rightarrow> char" where
  "lower_char c =
     (if (65 \<le> code c \<and> code c \<le> 90) \<or> (192 \<le> code c \<and> code c \<le> 222 \<and> code c \<noteq> 215)
      then char_of (code c + 32) else c)"

definition lower :: "string \<Rightarrow> string" where
  "lower s = map lower_char s"

definition strip :: "string \<Rightarrow> string" where
  "strip s = rev (dropWhile isspace (rev (dropWhile isspace s)))"

text \<open>\<^verbatim>\<open>s.split(sep)\<close> for a one-character separator: never the empty list.\<close>

fun split :: "char \<Rightarrow> string \<Rightarrow> string list" where
  "split sep [] = [[]]"
| "split sep (c # cs) =
     (if c = sep then [] # split sep cs
      else (case split sep cs of [] \<Rightarrow> [[c]] | l # ls \<Rightarrow> (c # l) # ls))"

text \<open>\<^verbatim>\<open>sep.join(xs)\<close>.\<close>

fun join :: "string \<Rightarrow> string list \<Rightarrow> string" where
  "join sep [] = []"
| "join sep [x] = x"
| "join sep (x # y # ys) = x @ sep @ join sep (y # ys)"

text \<open>\<^verbatim>\<open>sub in s\<close> on strings: \<^verbatim>\<open>sub\<close> occurs in \<^verbatim>\<open>s\<close> as a contiguous run.\<close>

fun py_in :: "string \<Rightarrow> string \<Rightarrow> bool" where
  "py_in sub [] = (sub = [])"
| "py_in sub (c # cs) = (take (length sub) (c # cs) = sub \<or> py_in sub cs)"

text \<open>\<^verbatim>\<open>xs[i]\<close> for an index that is not negative: out of range raises.\<close>

definition py_index :: "'a list \<Rightarrow> nat \<Rightarrow> py_error + 'a" where
  "py_index xs i = (if i < length xs then Inr (xs ! i) else Inl IndexError)"

text \<open>The value of a string of ASCII decimal digits, most significant first.\<close>

definition digits_value :: "string \<Rightarrow> nat" where
  "digits_value s = foldl (\<lambda>acc c. 10 * acc + (code c - 48)) 0 s"

text \<open>
  \<^verbatim>\<open>int(s)\<close> on a string all of whose characters satisfy \<^verbatim>\<open>str.isdigit\<close> (the only
  strings the source converts): it raises \<^verbatim>\<open>ValueError\<close> on the empty string, on a
  digit that is not a decimal, and, in CPython 3.11 and later, on a string longer than
  \<^verbatim>\<open>sys.get_int_max_str_digits()\<close>; that limit is the parameter \<open>maxd\<close>, 4300 by
  default, and 0 switches the check off (as it does in CPython, and as older versions
  behave).
\<close>

definition py_int :: "nat \<Rightarrow> string \<Rightarrow> py_error + int" where
  "py_int maxd s =
     (if s = [] \<or> \<not> list_all isdecimal s \<or> (0 < maxd \<and> maxd < length s)
      then Inl ValueError else Inr (int (digits_value s)))"

text \<open>\<^verbatim>\<open>str(n)\<close> for an integer that is not negative.\<close>

fun str_nat :: "nat \<Rightarrow> string" where
  "str_nat n = (if n < 10 then [char_of (48 + n)] else str_nat (n div 10) @ [char_of (48 + n mod 10)])"

section \<open>Round planning: the reply to the planning query\<close>

text \<open>
  Lines 61 to 65 of \<^verbatim>\<open>_determine_thinking_rounds\<close>: the \<^verbatim>\<open>try\<close> block that turns the
  model's reply into a number of rounds, and its bare \<^verbatim>\<open>except\<close>.
\<close>

definition parse_rounds :: "nat \<Rightarrow> string \<Rightarrow> int" where
  "parse_rounds maxd response =
     (case py_int maxd (filter isdigit response) of
        Inr rounds \<Rightarrow> min (max rounds 1) 5
      | Inl e \<Rightarrow> 3)"

section \<open>Selection: the reply to the evaluation query\<close>

text \<open>
  Lines 117 to 133 of \<^verbatim>\<open>_evaluate_responses\<close>: the non-empty stripped lines of the
  reply, then the choice and the explanation read from them. The choice is a string, as
  in the source: \<^verbatim>\<open>'current'\<close> or one digit character.
\<close>

definition reply_lines :: "string \<Rightarrow> string list" where
  "reply_lines evaluation =
     map strip (filter (\<lambda>line. strip line \<noteq> []) (split (CHR 0x0A) evaluation))"

definition parse_choice :: "string list \<Rightarrow> py_error + (string \<times> string)" where
  "parse_choice lines =
     (if lines \<noteq> [] then
        (case py_index lines 0 of
           Inl e \<Rightarrow> Inl e
         | Inr line0 \<Rightarrow>
             (let first_line = lower line0;
                  choice = (if py_in ''current'' first_line then ''current''
                            else (case find isdigit first_line of
                                    Some char \<Rightarrow> [char]
                                  | None \<Rightarrow> ''current''));
                  explanation = (if length lines > 1 then join '' '' (drop 1 lines)
                                 else ''No explanation provided'')
              in Inr (choice, explanation)))
      else Inr (''current'', ''No explanation provided''))"

text \<open>
  The \<^verbatim>\<open>try\<close> block of lines 138 to 143: \<open>Inr (Some r)\<close> is its \<^verbatim>\<open>return\<close>,
  \<open>Inr None\<close> is falling out of it, \<open>Inl e\<close> is an exception raised inside it.
\<close>

definition try_index :: "nat \<Rightarrow> string \<Rightarrow> string \<Rightarrow> string list \<Rightarrow> py_error + (string \<times> string) option" where
  "try_index maxd choice explanation alternatives =
     (case py_int maxd choice of
        Inl e \<Rightarrow> Inl e
      | Inr n \<Rightarrow>
          (let index = n - 1 in
           if 0 \<le> index \<and> index < int (length alternatives) then
             (case py_index alternatives (nat index) of
                Inl e \<Rightarrow> Inl e
              | Inr alt \<Rightarrow> Inr (Some (alt, explanation)))
           else Inr None))"

text \<open>
  Lines 116 to 145, the whole parsing path. The result is \<open>Inr (winner, explanation)\<close>
  when the function returns and \<open>Inl e\<close> when an exception leaves it; the bare
  \<^verbatim>\<open>except: pass\<close> catches whatever the \<^verbatim>\<open>try\<close> block raises.
\<close>

definition parse_evaluation :: "nat \<Rightarrow> string \<Rightarrow> string \<Rightarrow> string list \<Rightarrow> py_error + (string \<times> string)" where
  "parse_evaluation maxd evaluation current_best alternatives =
     (case parse_choice (reply_lines evaluation) of
        Inl e \<Rightarrow> Inl e
      | Inr (choice, explanation) \<Rightarrow>
          if choice = ''current'' then Inr (current_best, explanation)
          else (case try_index maxd choice explanation alternatives of
                  Inr (Some r) \<Rightarrow> Inr r
                | Inr None \<Rightarrow> Inr (current_best, explanation)
                | Inl e \<Rightarrow> Inr (current_best, explanation)))"

section \<open>Python floats\<close>

text \<open>
  A Python \<^verbatim>\<open>float\<close> is an IEEE 754 binary64 number; the model represents a finite one
  by the rational it denotes. \<open>binary64 x\<close> is the double nearest to \<open>x\<close>, ties going to
  the even significand: with \<open>2^e \<le> |x| < 2^(e+1)\<close> it rounds \<open>|x| / 2^(e-52)\<close> to an
  integer of 53 bits. A literal such as \<^verbatim>\<open>0.7\<close> is the double nearest to 7/10, and
  every operation returns the double nearest to its exact result. The exponent range is
  not modelled (no overflow, no subnormal numbers): the numbers of this program are 0 and
  numbers from 0.1 up, and an index would have to reach \<open>2^1024\<close>, after as many calls of
  the collaborator, to leave the range.
\<close>

text \<open>\<^verbatim>\<open>n.bit_length()\<close> for an integer that is not negative.\<close>

function bit_length :: "int \<Rightarrow> int" where
  "bit_length n = (if n \<le> 0 then 0 else 1 + bit_length (n div 2))"
  by pat_completeness auto
termination
  by (relation "measure nat") auto

definition pow2 :: "int \<Rightarrow> rat" where
  "pow2 e = (if 0 \<le> e then 2 ^ nat e else 1 / 2 ^ nat (- e))"

text \<open>For \<open>x > 0\<close>, the \<open>e\<close> with \<open>2^e \<le> x < 2^(e+1)\<close>.\<close>

definition exponent :: "rat \<Rightarrow> int" where
  "exponent x =
     (case quotient_of x of
        (a, b) \<Rightarrow>
          (let k = bit_length a - bit_length b
           in if pow2 k \<le> x then k else k - 1))"

definition round_half_even :: "rat \<Rightarrow> int" where
  "round_half_even q =
     (let f = \<lfloor>q\<rfloor>; r = q - of_int f
      in if r < 1 / 2 then f else if 1 / 2 < r then f + 1 else if even f then f else f + 1)"

definition binary64 :: "rat \<Rightarrow> rat" where
  "binary64 x =
     (if x = 0 then 0
      else (let ulp = pow2 (exponent \<bar>x\<bar> - 52)
            in sgn x * of_int (round_half_even (\<bar>x\<bar> / ulp)) * ulp))"

text \<open>A float literal, \<^verbatim>\<open>float(i)\<close> for an index, and \<^verbatim>\<open>x * y\<close> and \<^verbatim>\<open>x + y\<close> on floats.\<close>

definition float_lit :: "rat \<Rightarrow> rat" where
  "float_lit x = binary64 x"

definition float_of_nat :: "nat \<Rightarrow> rat" where
  "float_of_nat i = binary64 (of_nat i)"

definition float_mul :: "rat \<Rightarrow> rat \<Rightarrow> rat" where
  "float_mul x y = binary64 (x * y)"

definition float_add :: "rat \<Rightarrow> rat \<Rightarrow> rat" where
  "float_add x y = binary64 (x + y)"

section \<open>The session and its collaborator\<close>

text \<open>
  A message is the dictionary \<^verbatim>\<open>{"role": ..., "content": ...}\<close>. A candidate is a
  dictionary of the thinking history; its keys \<^verbatim>\<open>round\<close>, \<^verbatim>\<open>response\<close>,
  \<^verbatim>\<open>selected\<close>, \<^verbatim>\<open>alternative_number\<close> and \<^verbatim>\<open>explanation\<close> are the fields below
  (prefixed, since the source uses the same words for local variables), and a key the
  dictionary does not have is \<open>None\<close>.
\<close>

record message =
  role :: string
  content :: string

record candidate =
  c_round :: int
  c_response :: string
  c_selected :: bool
  c_alternative_number :: "nat option"
  c_explanation :: "string option"

text \<open>An entry of \<^verbatim>\<open>full_thinking_log\<close>, and the dictionary a turn returns.\<close>

record log_entry =
  log_timestamp :: string
  log_user_input :: string
  log_final_response :: string
  log_thinking_rounds :: int
  log_thinking_history :: "candidate list"

record turn_result =
  r_response :: string
  r_thinking_rounds :: int
  r_thinking_history :: "candidate list"

text \<open>
  One request to the collaborator and the text it returned. The temperature is the
  double the source passes, as the rational it denotes.
\<close>

record api_call =
  sent_messages :: "message list"
  sent_temperature :: rat
  got_reply :: string

text \<open>What the save operations write: the JSON documents and the markdown export.\<close>

record md_section =
  md_round :: int
  md_selected :: bool
  md_response :: string
  md_reason :: "string option"

datatype document =
    FullLogDoc "message list" "log_entry list" string
  | ConversationDoc "message list" string
  | MarkdownDoc string string int "md_section list"

text \<open>
  The state a call works on: the two attributes of the agent the core reads and
  writes, the state of the collaborator behind \<^verbatim>\<open>_call_api\<close>, the requests issued so
  far (an observation: nothing reads it), and the files written.
\<close>

record 'w agent =
  conversation_history :: "message list"
  full_thinking_log :: "log_entry list"
  backend :: 'w
  api_calls :: "api_call list"
  files :: "string \<rightharpoonup> document"

text \<open>
  What the code runs on: the subclass's \<^verbatim>\<open>_call_api\<close> (every adapter of the
  repository catches its own exceptions and returns a text, so it is a function to a
  text and a new collaborator state), the interpreter's limit on decimal strings,
  which paths \<^verbatim>\<open>open(path, 'w')\<close> opens and which folders \<^verbatim>\<open>os.makedirs\<close> can make
  (both raise \<^verbatim>\<open>OSError\<close> otherwise).
\<close>

record 'w runtime =
  call_model :: "'w \<Rightarrow> message list \<Rightarrow> rat \<Rightarrow> string \<times> 'w"
  int_max_str_digits :: nat
  writable :: "string \<Rightarrow> bool"
  can_makedirs :: "string \<Rightarrow> bool"

definition call_api :: "'w runtime \<Rightarrow> message list \<Rightarrow> rat \<Rightarrow> 'w agent \<Rightarrow> string \<times> 'w agent" where
  "call_api rt msgs temp s =
     (case call_model rt (backend s) msgs temp of
        (text, w) \<Rightarrow>
          (text, s\<lparr>backend := w,
                   api_calls := api_calls s @
                     [\<lparr>sent_messages = msgs, sent_temperature = temp, got_reply = text\<rparr>]\<rparr>))"

definition user :: "string \<Rightarrow> message" where
  "user text = \<lparr>role = ''user'', content = text\<rparr>"

definition assistant :: "string \<Rightarrow> message" where
  "assistant text = \<lparr>role = ''assistant'', content = text\<rparr>"

section \<open>Round planning\<close>

definition meta_prompt :: "string \<Rightarrow> string" where
  "meta_prompt prompt =
     ''Given this message: '' @ [CHR 0x22] @ prompt @ [CHR 0x22] @ nl @ nl @
     ''How many rounds of iterative thinking (1-5) would be optimal to generate the best response?'' @ nl @
     ''Consider the complexity and nuance required.'' @ nl @
     ''Respond with just a number between 1 and 5.''"

definition determine_thinking_rounds :: "'w runtime \<Rightarrow> string \<Rightarrow> 'w agent \<Rightarrow> int \<times> 'w agent" where
  "determine_thinking_rounds rt prompt s =
     (case call_api rt [user (meta_prompt prompt)] (float_lit (3 / 10)) s of
        (response, s') \<Rightarrow> (parse_rounds (int_max_str_digits rt) response, s'))"

section \<open>Alternative generation\<close>

definition alt_prompt :: "string \<Rightarrow> string \<Rightarrow> string" where
  "alt_prompt prompt base_response =
     ''Original message: '' @ prompt @ nl @ nl @
     ''Current response: '' @ base_response @ nl @ nl @
     ''Generate an alternative response that might be better. Be creative and consider different approaches.'' @ nl @
     ''Alternative response:''"

text \<open>
  The loop of \<^verbatim>\<open>_generate_alternatives\<close> over the indices still to do, with the list
  built so far.
\<close>

fun generate_loop :: "'w runtime \<Rightarrow> string \<Rightarrow> string \<Rightarrow> nat list \<Rightarrow> string list \<Rightarrow> 'w agent
    \<Rightarrow> string list \<times> 'w agent" where
  "generate_loop rt base_response prompt [] alternatives s = (alternatives, s)"
| "generate_loop rt base_response prompt (i # rest) alternatives s =
     (case call_api rt (conversation_history s @ [user (alt_prompt prompt base_response)])
             (float_add (float_lit (7 / 10)) (float_mul (float_of_nat i) (float_lit (1 / 10)))) s of
        (alternative, s') \<Rightarrow>
          generate_loop rt base_response prompt rest (alternatives @ [alternative]) s')"

definition generate_alternatives :: "'w runtime \<Rightarrow> string \<Rightarrow> string \<Rightarrow> int \<Rightarrow> 'w agent
    \<Rightarrow> string list \<times> 'w agent" where
  "generate_alternatives rt base_response prompt num_alternatives s =
     generate_loop rt base_response prompt [0..<nat num_alternatives] [] s"

section \<open>Selection\<close>

definition eval_prompt :: "string \<Rightarrow> string \<Rightarrow> string list \<Rightarrow> string" where
  "eval_prompt prompt current_best alternatives =
     ''Original message: '' @ prompt @ nl @ nl @
     ''Evaluate these responses and choose the best one:'' @ nl @ nl @
     ''Current best: '' @ current_best @ nl @ nl @
     ''Alternatives:'' @ nl @
     join nl (map (\<lambda>(i, alt). str_nat (i + 1) @ ''. '' @ alt) (enumerate 0 alternatives)) @ nl @ nl @
     ''Which response best addresses the original message? Consider accuracy, clarity, and completeness.'' @ nl @
     ''First, respond with ONLY '' @ [CHR 0x27] @ ''current'' @ [CHR 0x27] @ '' or a number (1-'' @
       str_nat (length alternatives) @ '').'' @ nl @
     ''Then on a new line, explain your choice in one sentence.''"

definition evaluate_responses :: "'w runtime \<Rightarrow> string \<Rightarrow> string \<Rightarrow> string list \<Rightarrow> 'w agent
    \<Rightarrow> (py_error + (string \<times> string)) \<times> 'w agent" where
  "evaluate_responses rt prompt current_best alternatives s =
     (case call_api rt [user (eval_prompt prompt current_best alternatives)] (float_lit (2 / 10)) s of
        (evaluation, s') \<Rightarrow>
          (parse_evaluation (int_max_str_digits rt) evaluation current_best alternatives, s'))"

section \<open>A turn\<close>

text \<open>Lines 184 to 190: the alternatives of a round enter the history unselected.\<close>

definition store_alternatives :: "int \<Rightarrow> string list \<Rightarrow> candidate list" where
  "store_alternatives round_num alternatives =
     map (\<lambda>(i, alt). \<lparr>c_round = round_num, c_response = alt, c_selected = False,
                        c_alternative_number = Some (i + 1), c_explanation = None\<rparr>)
       (enumerate 0 alternatives)"

text \<open>Lines 197 to 200: every item of this round with the winner's text is marked.\<close>

definition mark_selected :: "int \<Rightarrow> string \<Rightarrow> string \<Rightarrow> candidate list \<Rightarrow> candidate list" where
  "mark_selected round_num new_best expl thinking_history =
     map (\<lambda>item. if c_round item = round_num \<and> c_response item = new_best
                  then item\<lparr>c_selected := True, c_explanation := Some expl\<rparr> else item)
       thinking_history"

text \<open>
  Lines 206 to 209: the first selected item with the current text gets the explanation,
  and the loop stops there.
\<close>

fun attach_explanation :: "string \<Rightarrow> string \<Rightarrow> candidate list \<Rightarrow> candidate list" where
  "attach_explanation current_best expl [] = []"
| "attach_explanation current_best expl (item # items) =
     (if c_selected item \<and> c_response item = current_best
      then item\<lparr>c_explanation := Some expl\<rparr> # items
      else item # attach_explanation current_best expl items)"

text \<open>
  The loop of lines 176 to 212 over the round numbers still to do. An exception of
  \<^verbatim>\<open>_evaluate_responses\<close> would leave the loop and the turn.
\<close>

fun rounds_loop :: "'w runtime \<Rightarrow> string \<Rightarrow> int \<Rightarrow> int list \<Rightarrow> string \<Rightarrow> candidate list \<Rightarrow> 'w agent
    \<Rightarrow> (py_error + (string \<times> candidate list)) \<times> 'w agent" where
  "rounds_loop rt user_input num_alternatives [] current_best thinking_history s =
     (Inr (current_best, thinking_history), s)"
| "rounds_loop rt user_input num_alternatives (round_num # rest) current_best thinking_history s =
     (case generate_alternatives rt current_best user_input num_alternatives s of
        (alternatives, s1) \<Rightarrow>
          (case evaluate_responses rt user_input current_best alternatives s1 of
             (Inl e, s2) \<Rightarrow> (Inl e, s2)
           | (Inr (new_best, expl), s2) \<Rightarrow>
               (let stored = thinking_history @ store_alternatives round_num alternatives in
                if new_best \<noteq> current_best
                then rounds_loop rt user_input num_alternatives rest new_best
                       (mark_selected round_num new_best expl stored) s2
                else rounds_loop rt user_input num_alternatives rest current_best
                       (attach_explanation current_best expl stored) s2)))"

text \<open>
  \<^verbatim>\<open>think_and_respond\<close>. \<open>now\<close> is what \<^verbatim>\<open>datetime.now().isoformat()\<close> reads at line
  224. Printing, and \<^verbatim>\<open>verbose\<close> which only guards printing, are left out.
\<close>

definition think_and_respond :: "'w runtime \<Rightarrow> string \<Rightarrow> string \<Rightarrow> int \<Rightarrow> 'w agent
    \<Rightarrow> (py_error + turn_result) \<times> 'w agent" where
  "think_and_respond rt now user_input num_alternatives s =
     (case determine_thinking_rounds rt user_input s of
        (thinking_rounds, s1) \<Rightarrow>
     (case call_api rt (conversation_history s1 @ [user user_input]) (float_lit (7 / 10)) s1 of
        (current_best, s2) \<Rightarrow>
     (case rounds_loop rt user_input num_alternatives [1..thinking_rounds] current_best
             [\<lparr>c_round = 0, c_response = current_best, c_selected = True,
               c_alternative_number = None, c_explanation = None\<rparr>] s2 of
        (Inl e, s3) \<Rightarrow> (Inl e, s3)
      | (Inr (final_best, thinking_history), s3) \<Rightarrow>
          (let history = conversation_history s3 @ [user user_input, assistant final_best];
               kept = (if length history > 10 then drop (length history - 10) history
                       else history);
               entry = \<lparr>log_timestamp = now, log_user_input = user_input,
                        log_final_response = final_best, log_thinking_rounds = thinking_rounds,
                        log_thinking_history = thinking_history\<rparr>
           in (Inr \<lparr>r_response = final_best, r_thinking_rounds = thinking_rounds,
                    r_thinking_history = thinking_history\<rparr>,
               s3\<lparr>conversation_history := kept,
                  full_thinking_log := full_thinking_log s3 @ [entry]\<rparr>)))))"

section \<open>Saving\<close>

text \<open>
  \<open>stamp\<close> is what \<^verbatim>\<open>datetime.now().strftime('%Y%m%d_%H%M%S')\<close> reads and \<open>now\<close> what
  \<^verbatim>\<open>datetime.now().isoformat()\<close> reads. A JSON file is modelled by the value dumped,
  not by its text.
\<close>

definition write_file :: "'w runtime \<Rightarrow> string \<Rightarrow> document \<Rightarrow> 'w agent \<Rightarrow> (py_error + unit) \<times> 'w agent" where
  "write_file rt filename doc s =
     (if writable rt filename then (Inr (), s\<lparr>files := (files s)(filename \<mapsto> doc)\<rparr>)
      else (Inl OSError, s))"

definition save_full_log :: "'w runtime \<Rightarrow> string \<Rightarrow> string \<Rightarrow> string option \<Rightarrow> 'w agent
    \<Rightarrow> (py_error + unit) \<times> 'w agent" where
  "save_full_log rt stamp now filename s =
     write_file rt
       (case filename of None \<Rightarrow> ''full_thinking_log_'' @ stamp @ ''.json'' | Some f \<Rightarrow> f)
       (FullLogDoc (conversation_history s) (full_thinking_log s) now) s"

definition save_conversation :: "'w runtime \<Rightarrow> string \<Rightarrow> string \<Rightarrow> string option \<Rightarrow> 'w agent
    \<Rightarrow> (py_error + unit) \<times> 'w agent" where
  "save_conversation rt stamp now filename s =
     write_file rt
       (case filename of None \<Rightarrow> ''chat_history_'' @ stamp @ ''.json'' | Some f \<Rightarrow> f)
       (ConversationDoc (conversation_history s) now) s"

definition isalnum :: "char \<Rightarrow> bool" where
  "isalnum c =
     ((48 \<le> code c \<and> code c \<le> 57) \<or> (65 \<le> code c \<and> code c \<le> 90) \<or> (97 \<le> code c \<and> code c \<le> 122)
      \<or> code c = 170 \<or> code c = 178 \<or> code c = 179 \<or> code c = 181 \<or> code c = 185 \<or> code c = 186
      \<or> (188 \<le> code c \<and> code c \<le> 190) \<or> (192 \<le> code c \<and> code c \<le> 214)
      \<or> (216 \<le> code c \<and> code c \<le> 246) \<or> (248 \<le> code c \<and> code c \<le> 255))"

definition md_filename :: "string \<Rightarrow> string \<Rightarrow> string \<Rightarrow> string" where
  "md_filename folder user_input stamp =
     (let safe_input = map (\<lambda>c. if isalnum c \<or> isspace c then c else CHR ''_'') user_input;
          truncated_input = map (\<lambda>c. if c = CHR '' '' then CHR ''_'' else c) (strip (take 30 safe_input))
      in folder @ ''/'' @ truncated_input @ ''_'' @ stamp @ ''.md'')"

text \<open>
  The markdown export, by its parts: the user input, the final response, the number of
  rounds and, for each item of the history, its round, whether it is selected, its text
  and the reason printed (only for a selected item with an explanation).
\<close>

definition md_sections :: "candidate list \<Rightarrow> md_section list" where
  "md_sections thinking_history =
     map (\<lambda>item. \<lparr>md_round = c_round item, md_selected = c_selected item,
                   md_response = c_response item,
                   md_reason = (if c_explanation item \<noteq> None \<and> c_selected item
                                then c_explanation item else None)\<rparr>)
       thinking_history"

definition save_response_as_markdown :: "'w runtime \<Rightarrow> string \<Rightarrow> string \<Rightarrow> turn_result \<Rightarrow> string
    \<Rightarrow> 'w agent \<Rightarrow> (py_error + unit) \<times> 'w agent" where
  "save_response_as_markdown rt stamp user_input result folder s =
     (if can_makedirs rt folder then
        write_file rt (md_filename folder user_input stamp)
          (MarkdownDoc user_input (r_response result) (r_thinking_rounds result)
             (md_sections (r_thinking_history result))) s
      else (Inl OSError, s))"

section \<open>A scripted collaborator\<close>

text \<open>
  A collaborator for concrete runs: its state is the list of replies still to give, and
  it gives them in order whatever it is asked (the empty text once the list is used up).
\<close>

definition scripted :: "nat \<Rightarrow> (string list) runtime" where
  "scripted maxd =
     \<lparr>call_model = (\<lambda>w msgs temp. case w of [] \<Rightarrow> ([], []) | r # rs \<Rightarrow> (r, rs)),
      int_max_str_digits = maxd, writable = (\<lambda>path. True), can_makedirs = (\<lambda>path. True)\<rparr>"

definition fresh :: "'w \<Rightarrow> 'w agent" where
  "fresh w = \<lparr>conversation_history = [], full_thinking_log = [], backend = w,
              api_calls = [], files = Map.empty\<rparr>"

section \<open>The spec's reading of round planning\<close>

text \<open>
  The reply the collaborator gives to the planning query of
  \<^verbatim>\<open>_determine_thinking_rounds\<close>.
\<close>

definition planning_reply :: "'w runtime \<Rightarrow> string \<Rightarrow> 'w agent \<Rightarrow> string" where
  "planning_reply rt prompt s = fst (call_model rt (backend s) [user (meta_prompt prompt)] (float_lit (3 / 10)))"

text \<open>
  The spec's wording of the extraction, for comparison with \<^const>\<open>parse_rounds\<close>: the
  first run of decimal digits in the reply, and its value clamped into 1 to 5.
\<close>

definition first_digit_run :: "string \<Rightarrow> string" where
  "first_digit_run reply = takeWhile isdecimal (dropWhile (\<lambda>c. \<not> isdecimal c) reply)"

definition spec_rounds :: "string \<Rightarrow> int" where
  "spec_rounds reply = min (max (int (digits_value (first_digit_run reply))) 1) 5"

section \<open>Inputs for concrete runs\<close>

text \<open>
  A collaborator every call of which fails: it returns the error text the OpenAI adapter
  returns from its \<^verbatim>\<open>except\<close> branch.
\<close>

definition failing :: "unit runtime" where
  "failing =
     \<lparr>call_model = (\<lambda>w msgs temp. (''Error: Could not get response from OpenAI API'', w)),
      int_max_str_digits = 4300, writable = (\<lambda>path. True), can_makedirs = (\<lambda>path. True)\<rparr>"

text \<open>
  A session whose history already holds ten messages, with a scripted collaborator for one
  more turn of one round and one alternative; and a result to export.
\<close>

definition full_session :: "string list agent" where
  "full_session =
     \<lparr>conversation_history =
        [user ''q1'', assistant ''r1'', user ''q2'', assistant ''r2'', user ''q3'', assistant ''r3'',
         user ''q4'', assistant ''r4'', user ''q5'', assistant ''r5''],
      full_thinking_log = [], backend = [''1'', ''A0'', ''A1'', ''current''], api_calls = [],
      files = Map.empty\<rparr>"

definition sample_result :: turn_result where
  "sample_result =
     \<lparr>r_response = ''r5'', r_thinking_rounds = 1, r_thinking_history =
        [\<lparr>c_round = 0, c_response = ''r5'', c_selected = True, c_alternative_number = None,
          c_explanation = Some ''No explanation provided''\<rparr>,
         \<lparr>c_round = 1, c_response = ''x5'', c_selected = False, c_alternative_number = Some 1,
          c_explanation = None\<rparr>]\<rparr>"

section \<open>What the claims speak of\<close>

text \<open>
  The number of candidates of a round that are marked selected; the two attributes of the
  session; and what a turn gives: its result, the session it leaves and the requests issued.
\<close>

definition selected_in_round :: "int \<Rightarrow> candidate list \<Rightarrow> nat" where
  "selected_in_round r trace = length (filter (\<lambda>c. c_round c = r \<and> c_selected c) trace)"

definition session_state :: "'w agent \<Rightarrow> message list \<times> log_entry list" where
  "session_state s = (conversation_history s, full_thinking_log s)"

definition turn_outcome :: "'w runtime \<Rightarrow> string \<Rightarrow> string \<Rightarrow> int \<Rightarrow> 'w agent
    \<Rightarrow> (py_error + turn_result) \<times> (message list \<times> log_entry list) \<times> api_call list" where
  "turn_outcome rt now user_input num_alternatives s =
     (case think_and_respond rt now user_input num_alternatives s of
        (out, s') \<Rightarrow> (out, session_state s', api_calls s'))"

section \<open>Observations on a run\<close>

text \<open>The requests issued between two states, and the temperatures the code asks for.\<close>

definition new_calls :: "'w agent \<Rightarrow> 'w agent \<Rightarrow> api_call list" where
  "new_calls s s' = drop (length (api_calls s)) (api_calls s')"

definition alt_temperatures :: "nat \<Rightarrow> rat list" where
  "alt_temperatures n = map (\<lambda>i. float_add (float_lit (7 / 10)) (float_mul (float_of_nat i) (float_lit (1 / 10)))) [0..<n]"

text \<open>What a call leaves alone, and what it adds to the requests issued.\<close>

definition same_session :: "'w agent \<Rightarrow> 'w agent \<Rightarrow> bool" where
  "same_session s s' = (conversation_history s' = conversation_history s
     \<and> full_thinking_log s' = full_thinking_log s \<and> files s' = files s)"

definition round_temperatures :: "nat \<Rightarrow> rat list" where
  "round_temperatures n = alt_temperatures n @ [float_lit (2 / 10)]"

definition turn_temperatures :: "nat \<Rightarrow> nat \<Rightarrow> rat list" where
  "turn_temperatures r n = [float_lit (3 / 10), float_lit (7 / 10)] @ concat (replicate r (round_temperatures n))"

text \<open>
  The winner the parsing path of \<^verbatim>\<open>_evaluate_responses\<close> returns on a reply.
\<close>

definition winner :: "nat \<Rightarrow> string \<Rightarrow> string \<Rightarrow> string list \<Rightarrow> string" where
  "winner maxd evaluation current_best alternatives =
     (case parse_evaluation maxd evaluation current_best alternatives of
        Inr (w, expl) \<Rightarrow> w
      | Inl e \<Rightarrow> current_best)"

text \<open>
  The requests of \<open>r\<close> rounds with \<open>n\<close> alternatives each, read off a list of requests
  and replies: the first \<open>n\<close> ask for an alternative to the current best, each with the
  history and the one instruction and with the temperature of its index; the next one asks
  for the evaluation of the current best against the replies to those \<open>n\<close>; and the
  requests after it are those of the remaining rounds, the current best being the winner
  read from the reply to the evaluation.
\<close>

fun rounds_requests :: "nat \<Rightarrow> string \<Rightarrow> message list \<Rightarrow> nat \<Rightarrow> nat \<Rightarrow> string \<Rightarrow> api_call list \<Rightarrow> bool" where
  "rounds_requests maxd user_input history n 0 current_best calls = (calls = [])"
| "rounds_requests maxd user_input history n (Suc r) current_best calls =
     (n < length calls
      \<and> map sent_messages (take n calls) =
            replicate n (history @ [user (alt_prompt user_input current_best)])
      \<and> map sent_temperature (take n calls) = alt_temperatures n
      \<and> sent_messages (calls ! n) =
            [user (eval_prompt user_input current_best (map got_reply (take n calls)))]
      \<and> sent_temperature (calls ! n) = float_lit (2 / 10)
      \<and> rounds_requests maxd user_input history n r
            (winner maxd (got_reply (calls ! n)) current_best (map got_reply (take n calls)))
            (drop (Suc n) calls))"

text \<open>
  What the selection properties speak of: the round, the text and the flag of a candidate,
  and a history in which the selected candidates of one round agree on their text.
\<close>

definition key :: "candidate \<Rightarrow> int \<times> string \<times> bool" where
  "key c = (c_round c, c_response c, c_selected c)"

definition coherent :: "candidate list \<Rightarrow> bool" where
  "coherent th = (\<forall>c1 \<in> set th. \<forall>c2 \<in> set th.
      c_round c1 = c_round c2 \<and> c_selected c1 \<and> c_selected c2 \<longrightarrow> c_response c1 = c_response c2)"

text \<open>The history after one round, as lines 184 to 209 leave it.\<close>

definition round_history :: "int \<Rightarrow> string \<Rightarrow> string \<Rightarrow> string \<Rightarrow> string list \<Rightarrow> candidate list \<Rightarrow> candidate list" where
  "round_history round_num current_best new_best expl alternatives thinking_history =
     (if new_best \<noteq> current_best
      then mark_selected round_num new_best expl (thinking_history @ store_alternatives round_num alternatives)
      else attach_explanation current_best expl (thinking_history @ store_alternatives round_num alternatives))"

section \<open>Round planning: properties\<close>

lemma parse_rounds_range_aux: "1 \<le> parse_rounds maxd response \<and> parse_rounds maxd response \<le> 5"
  by (simp add: parse_rounds_def split: sum.splits)

lemma determine_thinking_rounds_parse:
  "fst (determine_thinking_rounds rt prompt s) =
     parse_rounds (int_max_str_digits rt) (planning_reply rt prompt s)"
  by (simp add: determine_thinking_rounds_def call_api_def planning_reply_def split: prod.splits)

lemma parse_rounds_fail: "py_int maxd (filter isdigit response) = Inl e \<Longrightarrow> parse_rounds maxd response = 3"
  by (simp add: parse_rounds_def)

lemma py_int_empty: "py_int maxd [] = Inl ValueError"
  by (simp add: py_int_def)

text \<open>
  Claim C2. Whatever the collaborator replies to the planning query,
  \<^verbatim>\<open>_determine_thinking_rounds\<close> returns a number from 1 to 5; it returns 3 when the
  reply has no digit, and whenever \<^verbatim>\<open>int()\<close> raises on the digits collected.
\<close>

theorem determine_thinking_rounds_in_range: 
  "1 \<le> fst (determine_thinking_rounds rt prompt s) \<and> fst (determine_thinking_rounds rt prompt s) \<le> 5
   \<and> (filter isdigit (planning_reply rt prompt s) = [] \<longrightarrow> fst (determine_thinking_rounds rt prompt s) = 3)
   \<and> (py_int (int_max_str_digits rt) (filter isdigit (planning_reply rt prompt s)) = Inl e
        \<longrightarrow> fst (determine_thinking_rounds rt prompt s) = 3)"
  using parse_rounds_range_aux[of "int_max_str_digits rt" "planning_reply rt prompt s"]
  by (auto simp: determine_thinking_rounds_parse parse_rounds_fail py_int_empty)

text \<open>The theorem of claim C2 at concrete inputs.\<close>

theorem determine_thinking_rounds_in_range_witness:
  "filter isdigit ''no idea'' = []
   \<and> fst (determine_thinking_rounds (scripted 4300) ''Explain recursion'' (fresh [''no idea''])) = 3
   \<and> py_int 4300 (filter isdigit [CHR ''x'', CHR 0xB2]) = Inl ValueError
   \<and> fst (determine_thinking_rounds (scripted 4300) ''Explain recursion'' (fresh [[CHR ''x'', CHR 0xB2]])) = 3
   \<and> 1 \<le> fst (determine_thinking_rounds (scripted 4300) ''Explain recursion'' (fresh [''0'']))
   \<and> fst (determine_thinking_rounds (scripted 4300) ''Explain recursion'' (fresh [''99''])) \<le> 5"
proof -
  have r1: "planning_reply (scripted 4300) ''Explain recursion'' (fresh [''no idea'']) = ''no idea''"
    by (simp add: planning_reply_def scripted_def fresh_def)
  have r2: "planning_reply (scripted 4300) ''Explain recursion'' (fresh [[CHR ''x'', CHR 0xB2]]) = [CHR ''x'', CHR 0xB2]"
    by (simp add: planning_reply_def scripted_def fresh_def)
  have a1: "filter isdigit ''no idea'' = []"
    by (simp add: isdigit_def isdecimal_def code_def)
  have a2: "py_int 4300 (filter isdigit [CHR ''x'', CHR 0xB2]) = Inl ValueError"
    by (simp add: py_int_def isdigit_def isdecimal_def code_def)
  have m: "int_max_str_digits (scripted 4300) = 4300"
    by (simp add: scripted_def)
  show ?thesis
    using a1 a2
      determine_thinking_rounds_in_range[of "scripted 4300" "''Explain recursion''" "fresh [''no idea'']" ValueError, unfolded r1 m]
      determine_thinking_rounds_in_range[of "scripted 4300" "''Explain recursion''" "fresh [[CHR ''x'', CHR 0xB2]]" ValueError, unfolded r2 m]
      determine_thinking_rounds_in_range[of "scripted 4300" "''Explain recursion''" "fresh [''0'']" ValueError]
      determine_thinking_rounds_in_range[of "scripted 4300" "''Explain recursion''" "fresh [''99'']" ValueError]
    by blast
qed

text \<open>
  Claim C8, as stated, fails: on the reply \<^verbatim>\<open>2 or 3\<close> the first run of decimal digits
  is \<^verbatim>\<open>2\<close>, and the code, which joins every digit of the reply, reads 23 and
  returns 5.
\<close>

theorem planned_rounds_first_run_counterexample: "fst (determine_thinking_rounds (scripted 4300) ''Explain recursion'' (fresh [''2 or 3''])) = 5
   \<and> spec_rounds ''2 or 3'' = 2"
  by (simp add: determine_thinking_rounds_def call_api_def scripted_def fresh_def parse_rounds_def py_int_def
     isdigit_def isdecimal_def code_def digits_value_def spec_rounds_def first_digit_run_def)

text \<open>
  Claim C8, amended. When the reply has digit characters, all of them ASCII decimals and
  no more of them than the interpreter's limit for \<^verbatim>\<open>int()\<close>, the round count is
  the value of the string of all the digit characters of the reply, in their order,
  clamped into 1 to 5.
\<close>

theorem planned_rounds_all_digits:
  "filter isdigit (planning_reply rt prompt s) \<noteq> [] \<and>
   list_all isdecimal (filter isdigit (planning_reply rt prompt s)) \<and>
   (int_max_str_digits rt = 0 \<or> length (filter isdigit (planning_reply rt prompt s)) \<le> int_max_str_digits rt)
   \<longrightarrow> fst (determine_thinking_rounds rt prompt s) =
         min (max (int (digits_value (filter isdigit (planning_reply rt prompt s)))) 1) 5"
  by (auto simp: determine_thinking_rounds_parse parse_rounds_def py_int_def)

text \<open>The theorem of claim C8 at concrete inputs.\<close>

theorem planned_rounds_all_digits_witness:
  "filter isdigit ''I would say 04 rounds'' = ''04''
   \<and> fst (determine_thinking_rounds (scripted 4300) ''Explain recursion'' (fresh [''I would say 04 rounds''])) = 4"
proof -
  have r: "planning_reply (scripted 4300) ''Explain recursion'' (fresh [''I would say 04 rounds'']) = ''I would say 04 rounds''"
    by (simp add: planning_reply_def scripted_def fresh_def)
  have a: "filter isdigit ''I would say 04 rounds'' = ''04''"
    by (simp add: isdigit_def isdecimal_def code_def)
  have m: "int_max_str_digits (scripted 4300) = 4300"
    by (simp add: scripted_def)
  have v: "min (max (int (digits_value ''04'')) 1) 5 = 4"
    by (simp add: digits_value_def code_def)
  have h: "''04'' \<noteq> [] \<and> list_all isdecimal ''04'' \<and> ((4300::nat) = 0 \<or> length ''04'' \<le> (4300::nat))"
    by (simp add: isdecimal_def code_def)
  show ?thesis
    using a h planned_rounds_all_digits[of "scripted 4300" "''Explain recursion''" "fresh [''I would say 04 rounds'']", unfolded r m a v]
    by blast
qed

section \<open>Selection: properties\<close>

lemmas parse_defs = parse_evaluation_def reply_lines_def nl_def strip_def isspace_def code_def parse_choice_def
  py_index_def lower_def lower_char_def isdigit_def isdecimal_def try_index_def py_int_def digits_value_def

lemma try_index_cases:
  "try_index maxd choice expl alternatives = Inl ValueError
   \<or> try_index maxd choice expl alternatives = Inr None
   \<or> (\<exists>alt \<in> set alternatives. try_index maxd choice expl alternatives = Inr (Some (alt, expl)))"
  by (auto simp: try_index_def py_index_def py_int_def Let_def)

lemma parse_choice_returns: "\<exists>choice expl. parse_choice lines = Inr (choice, expl)"
  by (cases lines) (auto simp: parse_choice_def py_index_def Let_def)

lemma parse_evaluation_returns:
  "\<exists>winner expl. parse_evaluation maxd evaluation current_best alternatives = Inr (winner, expl)
      \<and> (winner = current_best \<or> winner \<in> set alternatives)"
proof -
  obtain choice expl where pc: "parse_choice (reply_lines evaluation) = Inr (choice, expl)"
    using parse_choice_returns by blast
  show ?thesis
    using try_index_cases[of maxd choice expl alternatives]
    by (auto simp: parse_evaluation_def pc)
qed

lemma parse_choice_Nil: "parse_choice [] = Inr (''current'', ''No explanation provided'')"
  by (simp add: parse_choice_def)

lemma parse_evaluation_no_lines:
  "reply_lines evaluation = [] \<Longrightarrow>
   parse_evaluation maxd evaluation current_best alternatives = Inr (current_best, ''No explanation provided'')"
  by (simp add: parse_evaluation_def parse_choice_Nil)

lemma reply_lines_empty: "reply_lines [] = []"
  by (simp add: reply_lines_def strip_def)

lemma parse_choice_no_digit:
  "find isdigit (lower line0) = None \<Longrightarrow> \<exists>expl. parse_choice (line0 # rest) = Inr (''current'', expl)"
  by (simp add: parse_choice_def py_index_def Let_def)

lemma parse_choice_digit:
  "find isdigit (lower line0) = Some d \<Longrightarrow>
   \<exists>expl. parse_choice (line0 # rest) = Inr (''current'', expl) \<or> parse_choice (line0 # rest) = Inr ([d], expl)"
  by (simp add: parse_choice_def py_index_def Let_def)

lemma try_index_out_of_range:
  "\<not> isdecimal d \<or> code d = 48 \<or> length alternatives < code d - 48 \<Longrightarrow>
   try_index maxd [d] expl alternatives = Inl ValueError \<or> try_index maxd [d] expl alternatives = Inr None"
  by (auto simp: try_index_def py_int_def digits_value_def Let_def isdecimal_def)

lemma parse_evaluation_no_digit:
  assumes "reply_lines evaluation = line0 # rest" "find isdigit (lower line0) = None"
  shows "\<exists>expl. parse_evaluation maxd evaluation current_best alternatives = Inr (current_best, expl)"
  using parse_choice_no_digit[OF assms(2), of rest]
  by (auto simp: parse_evaluation_def assms(1))

lemma parse_evaluation_out_of_range:
  assumes "reply_lines evaluation = line0 # rest" "find isdigit (lower line0) = Some d"
    "\<not> isdecimal d \<or> code d = 48 \<or> length alternatives < code d - 48"
  shows "\<exists>expl. parse_evaluation maxd evaluation current_best alternatives = Inr (current_best, expl)"
proof -
  obtain expl where pc: "parse_choice (line0 # rest) = Inr (''current'', expl) \<or> parse_choice (line0 # rest) = Inr ([d], expl)"
    using parse_choice_digit[OF assms(2)] by blast
  show ?thesis
    using pc try_index_out_of_range[OF assms(3), of maxd expl]
    by (auto simp: parse_evaluation_def assms(1))
qed

text \<open>
  Claim C5. For every reply, current best and list of alternatives the parsing path of
  \<^verbatim>\<open>_evaluate_responses\<close> returns (no exception leaves it), and the winner is the
  current best or one of the alternatives. The empty reply, and any reply with no
  non-blank line, gives the current best with the placeholder explanation; a first line
  with no digit gives the current best; so does a first line whose first digit is 0, is
  beyond the number of alternatives, or is not a decimal.
\<close>

theorem parse_evaluation_never_raises:
  "(\<exists>winner expl. parse_evaluation maxd evaluation current_best alternatives = Inr (winner, expl)
      \<and> (winner = current_best \<or> winner \<in> set alternatives))
   \<and> parse_evaluation maxd [] current_best alternatives = Inr (current_best, ''No explanation provided'')
   \<and> (reply_lines evaluation = [] \<longrightarrow>
        parse_evaluation maxd evaluation current_best alternatives = Inr (current_best, ''No explanation provided''))
   \<and> (\<forall>line0 rest. reply_lines evaluation = line0 # rest \<and> find isdigit (lower line0) = None \<longrightarrow>
        (\<exists>expl. parse_evaluation maxd evaluation current_best alternatives = Inr (current_best, expl)))
   \<and> (\<forall>line0 rest d. reply_lines evaluation = line0 # rest \<and> find isdigit (lower line0) = Some d
          \<and> (\<not> isdecimal d \<or> code d = 48 \<or> length alternatives < code d - 48) \<longrightarrow>
        (\<exists>expl. parse_evaluation maxd evaluation current_best alternatives = Inr (current_best, expl)))"
  using parse_evaluation_returns[of maxd evaluation current_best alternatives]
    parse_evaluation_no_lines[of evaluation maxd current_best alternatives]
    parse_evaluation_no_lines[OF reply_lines_empty, of maxd current_best alternatives]
    parse_evaluation_no_digit[of evaluation _ _ maxd current_best alternatives]
    parse_evaluation_out_of_range[of evaluation _ _ _ alternatives maxd current_best]
  by blast

text \<open>The theorem of claim C5 at concrete inputs.\<close>

theorem parse_evaluation_never_raises_witness:
  "reply_lines (''   '' @ nl @ '' '') = []
   \<and> parse_evaluation 4300 (''   '' @ nl @ '' '') ''A0'' [''A1'', ''A2''] = Inr (''A0'', ''No explanation provided'')
   \<and> reply_lines (''the second one'' @ nl @ ''it is shorter'') = [''the second one'', ''it is shorter'']
   \<and> find isdigit (lower ''the second one'') = None
   \<and> (\<exists>expl. parse_evaluation 4300 (''the second one'' @ nl @ ''it is shorter'') ''A0'' [''A1'', ''A2''] = Inr (''A0'', expl))
   \<and> reply_lines (''Option 7'' @ nl @ ''reason'') = [''Option 7'', ''reason'']
   \<and> find isdigit (lower ''Option 7'') = Some (CHR ''7'')
   \<and> length [''A1'', ''A2''] < code (CHR ''7'') - 48
   \<and> (\<exists>expl. parse_evaluation 4300 (''Option 7'' @ nl @ ''reason'') ''A0'' [''A1'', ''A2''] = Inr (''A0'', expl))"
proof -
  have a1: "reply_lines (''   '' @ nl @ '' '') = []"
    by (simp add: reply_lines_def nl_def strip_def isspace_def code_def)
  have a2: "reply_lines (''the second one'' @ nl @ ''it is shorter'') = [''the second one'', ''it is shorter'']"
    by (simp add: reply_lines_def nl_def strip_def isspace_def code_def)
  have a3: "find isdigit (lower ''the second one'') = None"
    by (simp add: lower_def lower_char_def isdigit_def isdecimal_def code_def)
  have a4: "reply_lines (''Option 7'' @ nl @ ''reason'') = [''Option 7'', ''reason'']"
    by (simp add: reply_lines_def nl_def strip_def isspace_def code_def)
  have a5: "find isdigit (lower ''Option 7'') = Some (CHR ''7'')"
    by (simp add: lower_def lower_char_def isdigit_def isdecimal_def code_def)
  have a6: "length [''A1'', ''A2''] < code (CHR ''7'') - 48"
    by (simp add: code_def)
  show ?thesis
    using a1 a2 a3 a4 a5 a6
      parse_evaluation_never_raises[of 4300 "''   '' @ nl @ '' ''" "''A0''" "[''A1'', ''A2'']"]
      parse_evaluation_never_raises[of 4300 "''the second one'' @ nl @ ''it is shorter''" "''A0''" "[''A1'', ''A2'']"]
      parse_evaluation_never_raises[of 4300 "''Option 7'' @ nl @ ''reason''" "''A0''" "[''A1'', ''A2'']"]
    by blast
qed

text \<open>
  Claim C4. \<^verbatim>\<open>_evaluate_responses\<close>, run on a collaborator that replies with each of
  the spec's three test vectors: the reply \<^verbatim>\<open>2\<close>, newline, \<^verbatim>\<open>Because it's clearer.\<close>
  with three alternatives selects the second one with that explanation; the reply
  \<^verbatim>\<open>current\<close> keeps the current best with the placeholder explanation; the reply
  \<^verbatim>\<open>7\<close>, newline, \<^verbatim>\<open>reason\<close> with three alternatives keeps the current best.
\<close>

theorem evaluate_responses_test_vectors:
  "fst (evaluate_responses (scripted maxd) prompt current_best [a1, a2, a3]
          (fresh [''2'' @ nl @ ''Because it's clearer.'']))
     = Inr (a2, ''Because it's clearer.'')
   \<and> fst (evaluate_responses (scripted maxd) prompt current_best alternatives (fresh [''current'']))
     = Inr (current_best, ''No explanation provided'')
   \<and> fst (evaluate_responses (scripted maxd) prompt current_best [a1, a2, a3]
          (fresh [''7'' @ nl @ ''reason'']))
     = Inr (current_best, ''reason'')"
  by (auto simp: evaluate_responses_def call_api_def scripted_def fresh_def parse_defs)

text \<open>The theorem of claim C4 at concrete inputs.\<close>

theorem evaluate_responses_test_vectors_witness:
  "fst (evaluate_responses (scripted 4300) ''Which is best?'' ''A0'' [''A1'', ''A2'', ''A3'']
          (fresh [''2'' @ nl @ ''Because it's clearer.'']))
     = Inr (''A2'', ''Because it's clearer.'')
   \<and> fst (evaluate_responses (scripted 4300) ''Which is best?'' ''A0'' [''A1'', ''A2'', ''A3''] (fresh [''current'']))
     = Inr (''A0'', ''No explanation provided'')
   \<and> fst (evaluate_responses (scripted 4300) ''Which is best?'' ''A0'' [''A1'', ''A2'', ''A3'']
          (fresh [''7'' @ nl @ ''reason'']))
     = Inr (''A0'', ''reason'')"
  by (rule evaluate_responses_test_vectors)

section \<open>Requests and frame: properties\<close>

lemma call_api_effect:
  assumes "call_api rt msgs temp s = (text, s')"
  shows "same_session s s'"
    and "api_calls s' = api_calls s @ [\<lparr>sent_messages = msgs, sent_temperature = temp, got_reply = text\<rparr>]"
  using assms by (auto simp: call_api_def same_session_def split: prod.splits)

lemma same_session_refl: "same_session s s"
  by (simp add: same_session_def)

lemma same_session_trans: "same_session s s1 \<Longrightarrow> same_session s1 s2 \<Longrightarrow> same_session s s2"
  by (simp add: same_session_def)

lemma generate_loop_effect:
  assumes "generate_loop rt base_response prompt idx alternatives s = (result, s')"
  shows "same_session s s' \<and>
     (\<exists>calls. api_calls s' = api_calls s @ calls
        \<and> result = alternatives @ map got_reply calls
        \<and> map sent_temperature calls = map (\<lambda>i. float_add (float_lit (7 / 10)) (float_mul (float_of_nat i) (float_lit (1 / 10)))) idx
        \<and> map sent_messages calls =
            replicate (length idx) (conversation_history s @ [user (alt_prompt prompt base_response)]))"
  using assms
proof (induction idx arbitrary: alternatives s)
  case Nil
  then show ?case by (simp add: same_session_refl)
next
  case (Cons i rest)
  obtain alternative s1 where c: "call_api rt (conversation_history s @ [user (alt_prompt prompt base_response)])
             (float_add (float_lit (7 / 10)) (float_mul (float_of_nat i) (float_lit (1 / 10)))) s = (alternative, s1)"
    by (cases "call_api rt (conversation_history s @ [user (alt_prompt prompt base_response)])
             (float_add (float_lit (7 / 10)) (float_mul (float_of_nat i) (float_lit (1 / 10)))) s")
  from Cons.prems c have r: "generate_loop rt base_response prompt rest (alternatives @ [alternative]) s1 = (result, s')"
    by simp
  from Cons.IH[OF r] obtain calls where ih: "same_session s1 s'" "api_calls s' = api_calls s1 @ calls"
    "result = (alternatives @ [alternative]) @ map got_reply calls"
    "map sent_temperature calls = map (\<lambda>i. float_add (float_lit (7 / 10)) (float_mul (float_of_nat i) (float_lit (1 / 10)))) rest"
    "map sent_messages calls = replicate (length rest) (conversation_history s1 @ [user (alt_prompt prompt base_response)])"
    by blast
  note e = call_api_effect[OF c]
  have h: "conversation_history s1 = conversation_history s"
    using e(1) by (simp add: same_session_def)
  let ?c = "\<lparr>sent_messages = conversation_history s @ [user (alt_prompt prompt base_response)],
             sent_temperature = float_add (float_lit (7 / 10)) (float_mul (float_of_nat i) (float_lit (1 / 10))), got_reply = alternative\<rparr>"
  have "api_calls s' = api_calls s @ (?c # calls)"
    using ih(2) e(2) by simp
  moreover have "result = alternatives @ map got_reply (?c # calls)"
    using ih(3) by simp
  moreover have "map sent_temperature (?c # calls) = map (\<lambda>i. float_add (float_lit (7 / 10)) (float_mul (float_of_nat i) (float_lit (1 / 10)))) (i # rest)"
    using ih(4) by simp
  moreover have "map sent_messages (?c # calls) =
            replicate (length (i # rest)) (conversation_history s @ [user (alt_prompt prompt base_response)])"
    using ih(5) h by simp
  ultimately show ?case
    using same_session_trans[OF e(1) ih(1)] by blast
qed

lemma new_calls_append: "api_calls s' = api_calls s @ calls \<Longrightarrow> new_calls s s' = calls"
  by (simp add: new_calls_def)

lemma generate_alternatives_effect:
  assumes "generate_alternatives rt base_response prompt num_alternatives s = (result, s')"
  shows "same_session s s'"
    and "api_calls s' = api_calls s @ new_calls s s'"
    and "result = map got_reply (new_calls s s')"
    and "map sent_temperature (new_calls s s') = alt_temperatures (nat num_alternatives)"
    and "map sent_messages (new_calls s s') =
            replicate (nat num_alternatives) (conversation_history s @ [user (alt_prompt prompt base_response)])"
    and "length result = nat num_alternatives"
proof -
  from generate_loop_effect[OF assms[unfolded generate_alternatives_def]]
  obtain calls where a: "same_session s s'" "api_calls s' = api_calls s @ calls"
        "result = map got_reply calls"
        "map sent_temperature calls = map (\<lambda>i. float_add (float_lit (7 / 10)) (float_mul (float_of_nat i) (float_lit (1 / 10)))) [0..<nat num_alternatives]"
        "map sent_messages calls =
            replicate (nat num_alternatives) (conversation_history s @ [user (alt_prompt prompt base_response)])"
    by auto
  have n: "new_calls s s' = calls" using a(2) by (rule new_calls_append)
  show "same_session s s'" by (rule a(1))
  show "api_calls s' = api_calls s @ new_calls s s'" using a(2) n by simp
  show "result = map got_reply (new_calls s s')" using a(3) n by simp
  show "map sent_temperature (new_calls s s') = alt_temperatures (nat num_alternatives)"
    using a(4) n by (simp add: alt_temperatures_def)
  show "map sent_messages (new_calls s s') =
            replicate (nat num_alternatives) (conversation_history s @ [user (alt_prompt prompt base_response)])"
    using a(5) n by simp
  have "length calls = nat num_alternatives"
    using arg_cong[OF a(5), of length] by simp
  then show "length result = nat num_alternatives" using a(3) by simp
qed

lemma evaluate_responses_effect:
  assumes "evaluate_responses rt prompt current_best alternatives s = (res, s')"
  shows "same_session s s'"
    and "\<exists>text. api_calls s' = api_calls s @
           [\<lparr>sent_messages = [user (eval_prompt prompt current_best alternatives)],
             sent_temperature = float_lit (2 / 10), got_reply = text\<rparr>]"
    and "\<exists>winner expl. res = Inr (winner, expl) \<and> (winner = current_best \<or> winner \<in> set alternatives)"
proof -
  obtain evaluation s1 where c: "call_api rt [user (eval_prompt prompt current_best alternatives)] (float_lit (2 / 10)) s = (evaluation, s1)"
    by (cases "call_api rt [user (eval_prompt prompt current_best alternatives)] (float_lit (2 / 10)) s")
  from assms c have r: "res = parse_evaluation (int_max_str_digits rt) evaluation current_best alternatives" "s' = s1"
    by (simp_all add: evaluate_responses_def)
  note e = call_api_effect[OF c]
  show "same_session s s'" using e(1) r(2) by simp
  show "\<exists>text. api_calls s' = api_calls s @
           [\<lparr>sent_messages = [user (eval_prompt prompt current_best alternatives)],
             sent_temperature = float_lit (2 / 10), got_reply = text\<rparr>]"
    using e(2) r(2) by blast
  show "\<exists>winner expl. res = Inr (winner, expl) \<and> (winner = current_best \<or> winner \<in> set alternatives)"
    unfolding r(1) by (rule parse_evaluation_returns)
qed

lemma length_alt_temperatures: "length (alt_temperatures n) = n"
  by (simp add: alt_temperatures_def)

lemma rounds_loop_effect:
  assumes "rounds_loop rt user_input num_alternatives rs current_best thinking_history s = (res, s')"
  shows "same_session s s' \<and> (\<exists>final trace. res = Inr (final, trace)) \<and>
     (\<exists>calls. api_calls s' = api_calls s @ calls
        \<and> map sent_temperature calls = concat (replicate (length rs) (round_temperatures (nat num_alternatives))))"
  using assms
proof (induction rs arbitrary: current_best thinking_history s)
  case Nil
  then show ?case by (auto simp: same_session_refl)
next
  case (Cons round_num rest)
  obtain alternatives s1 where g: "generate_alternatives rt current_best user_input num_alternatives s = (alternatives, s1)"
    by (cases "generate_alternatives rt current_best user_input num_alternatives s")
  obtain ev s2 where ev: "evaluate_responses rt user_input current_best alternatives s1 = (ev, s2)"
    by (cases "evaluate_responses rt user_input current_best alternatives s1")
  note ge = generate_alternatives_effect[OF g]
  note ee = evaluate_responses_effect[OF ev]
  from ee(3) obtain new_best expl where w: "ev = Inr (new_best, expl)" by blast
  from ee(2) obtain rep where c2: "api_calls s2 = api_calls s1 @
           [\<lparr>sent_messages = [user (eval_prompt user_input current_best alternatives)],
             sent_temperature = float_lit (2 / 10), got_reply = rep\<rparr>]" by blast
  obtain cb' th' where rec: "rounds_loop rt user_input num_alternatives rest cb' th' s2 = (res, s')"
    using Cons.prems g ev w by (auto simp: Let_def split: if_splits)
  from Cons.IH[OF rec] obtain calls where ih: "same_session s2 s'" "\<exists>final trace. res = Inr (final, trace)"
     "api_calls s' = api_calls s2 @ calls"
     "map sent_temperature calls = concat (replicate (length rest) (round_temperatures (nat num_alternatives)))"
    by blast
  let ?calls = "new_calls s s1 @ [\<lparr>sent_messages = [user (eval_prompt user_input current_best alternatives)],
             sent_temperature = float_lit (2 / 10), got_reply = rep\<rparr>] @ calls"
  have "api_calls s' = api_calls s @ ?calls"
    using ih(3) c2 ge(2) by simp
  moreover have "map sent_temperature ?calls = concat (replicate (length (round_num # rest)) (round_temperatures (nat num_alternatives)))"
    using ih(4) ge(4) by (simp add: round_temperatures_def)
  ultimately have "\<exists>calls. api_calls s' = api_calls s @ calls
        \<and> map sent_temperature calls = concat (replicate (length (round_num # rest)) (round_temperatures (nat num_alternatives)))"
    by blast
  then show ?case
    using same_session_trans[OF same_session_trans[OF ge(1) ee(1)] ih(1)] ih(2) by blast
qed

lemma determine_thinking_rounds_effect:
  assumes "determine_thinking_rounds rt prompt s = (rounds, s')"
  shows "same_session s s'"
    and "\<exists>text. api_calls s' = api_calls s @
           [\<lparr>sent_messages = [user (meta_prompt prompt)], sent_temperature = float_lit (3 / 10), got_reply = text\<rparr>]"
    and "1 \<le> rounds" and "rounds \<le> 5"
proof -
  obtain response s1 where c: "call_api rt [user (meta_prompt prompt)] (float_lit (3 / 10)) s = (response, s1)"
    by (cases "call_api rt [user (meta_prompt prompt)] (float_lit (3 / 10)) s")
  from assms c have r: "rounds = parse_rounds (int_max_str_digits rt) response" "s' = s1"
    by (simp_all add: determine_thinking_rounds_def)
  note e = call_api_effect[OF c]
  show "same_session s s'" using e(1) r(2) by simp
  show "\<exists>text. api_calls s' = api_calls s @
           [\<lparr>sent_messages = [user (meta_prompt prompt)], sent_temperature = float_lit (3 / 10), got_reply = text\<rparr>]"
    using e(2) r(2) by blast
  show "1 \<le> rounds" "rounds \<le> 5"
    using parse_rounds_range_aux[of "int_max_str_digits rt" response] r(1) by simp_all
qed

lemma float_mul_commute: "float_mul x y = float_mul y x"
  by (simp add: float_mul_def mult.commute)

text \<open>
  The doubles the source passes: Python prints them as 0.3, 0.7, 0.2, and, for the
  indices 0, 1 and 2 of an alternative, 0.7, 0.7999999999999999 and 0.8999999999999999.
\<close>

lemma float_lit_planning: "float_lit (3 / 10) = 5404319552844595 / 18014398509481984"
  by code_simp

lemma float_lit_default: "float_lit (7 / 10) = 3152519739159347 / 4503599627370496"
  by code_simp

lemma float_lit_evaluation: "float_lit (2 / 10) = 3602879701896397 / 18014398509481984"
  by code_simp

lemma alt_temperature_0:
  "float_add (float_lit (7 / 10)) (float_mul (float_of_nat 0) (float_lit (1 / 10)))
     = 3152519739159347 / 4503599627370496"
  by code_simp

lemma alt_temperature_1:
  "float_add (float_lit (7 / 10)) (float_mul (float_of_nat 1) (float_lit (1 / 10)))
     = 7205759403792793 / 9007199254740992"
  by code_simp

lemma alt_temperature_2:
  "float_add (float_lit (7 / 10)) (float_mul (float_of_nat 2) (float_lit (1 / 10)))
     = 2026619832316723 / 2251799813685248"
  by code_simp

lemma evaluate_responses_reply:
  assumes "evaluate_responses rt prompt current_best alternatives s = (res, s')"
  shows "\<exists>rep. api_calls s' = api_calls s @
           [\<lparr>sent_messages = [user (eval_prompt prompt current_best alternatives)],
             sent_temperature = float_lit (2 / 10), got_reply = rep\<rparr>]
         \<and> res = parse_evaluation (int_max_str_digits rt) rep current_best alternatives"
proof -
  obtain evaluation s1 where c: "call_api rt [user (eval_prompt prompt current_best alternatives)] (float_lit (2 / 10)) s = (evaluation, s1)"
    by (cases "call_api rt [user (eval_prompt prompt current_best alternatives)] (float_lit (2 / 10)) s")
  from assms c have r: "res = parse_evaluation (int_max_str_digits rt) evaluation current_best alternatives" "s' = s1"
    by (simp_all add: evaluate_responses_def)
  show ?thesis
    using call_api_effect(2)[OF c] r by blast
qed

lemma determine_thinking_rounds_reply:
  assumes "determine_thinking_rounds rt prompt s = (rounds, s')"
  shows "\<exists>rep. api_calls s' = api_calls s @
           [\<lparr>sent_messages = [user (meta_prompt prompt)], sent_temperature = float_lit (3 / 10), got_reply = rep\<rparr>]
         \<and> rounds = parse_rounds (int_max_str_digits rt) rep"
proof -
  obtain response s1 where c: "call_api rt [user (meta_prompt prompt)] (float_lit (3 / 10)) s = (response, s1)"
    by (cases "call_api rt [user (meta_prompt prompt)] (float_lit (3 / 10)) s")
  from assms c have r: "rounds = parse_rounds (int_max_str_digits rt) response" "s' = s1"
    by (simp_all add: determine_thinking_rounds_def)
  show ?thesis
    using call_api_effect(2)[OF c] r by blast
qed

lemma rounds_requests_round:
  assumes "length alt_calls = n"
    and "map sent_messages alt_calls = replicate n (history @ [user (alt_prompt user_input current_best)])"
    and "map sent_temperature alt_calls = alt_temperatures n"
    and "sent_messages ev = [user (eval_prompt user_input current_best (map got_reply alt_calls))]"
    and "sent_temperature ev = float_lit (2 / 10)"
    and "rounds_requests maxd user_input history n r
           (winner maxd (got_reply ev) current_best (map got_reply alt_calls)) later"
  shows "rounds_requests maxd user_input history n (Suc r) current_best (alt_calls @ ev # later)"
  using assms by (simp add: nth_append)

lemma rounds_loop_requests:
  assumes "rounds_loop rt user_input num_alternatives rs current_best thinking_history s = (res, s')"
  shows "\<exists>calls. api_calls s' = api_calls s @ calls
     \<and> rounds_requests (int_max_str_digits rt) user_input (conversation_history s) (nat num_alternatives)
           (length rs) current_best calls"
  using assms
proof (induction rs arbitrary: current_best thinking_history s)
  case Nil
  then show ?case by simp
next
  case (Cons round_num rest)
  obtain alternatives s1 where g: "generate_alternatives rt current_best user_input num_alternatives s = (alternatives, s1)"
    by (cases "generate_alternatives rt current_best user_input num_alternatives s")
  obtain ev s2 where ev: "evaluate_responses rt user_input current_best alternatives s1 = (ev, s2)"
    by (cases "evaluate_responses rt user_input current_best alternatives s1")
  note ge = generate_alternatives_effect[OF g]
  note ee = evaluate_responses_effect[OF ev]
  from evaluate_responses_reply[OF ev] obtain rep where er:
    "api_calls s2 = api_calls s1 @
           [\<lparr>sent_messages = [user (eval_prompt user_input current_best alternatives)],
             sent_temperature = float_lit (2 / 10), got_reply = rep\<rparr>]"
    "ev = parse_evaluation (int_max_str_digits rt) rep current_best alternatives"
    by blast
  from ee(3) obtain new_best expl where w: "ev = Inr (new_best, expl)" by blast
  have "parse_evaluation (int_max_str_digits rt) rep current_best alternatives = Inr (new_best, expl)"
    using er(2) w by simp
  then have win: "winner (int_max_str_digits rt) rep current_best alternatives = new_best"
    by (simp add: winner_def)
  obtain th' where rec: "rounds_loop rt user_input num_alternatives rest new_best th' s2 = (res, s')"
    using Cons.prems g ev w by (auto simp: Let_def split: if_splits)
  from Cons.IH[OF rec] obtain later where ih:
    "api_calls s' = api_calls s2 @ later"
    "rounds_requests (int_max_str_digits rt) user_input (conversation_history s2) (nat num_alternatives)
           (length rest) new_best later"
    by blast
  have h2: "conversation_history s2 = conversation_history s"
    using same_session_trans[OF ge(1) ee(1)] by (simp add: same_session_def)
  let ?ev = "\<lparr>sent_messages = [user (eval_prompt user_input current_best alternatives)],
             sent_temperature = float_lit (2 / 10), got_reply = rep\<rparr>"
  have len: "length (new_calls s s1) = nat num_alternatives"
    using ge(3) ge(6) by (metis length_map)
  have all: "api_calls s' = api_calls s @ (new_calls s s1 @ ?ev # later)"
    using ih(1) er(1) ge(2) by simp
  have "rounds_requests (int_max_str_digits rt) user_input (conversation_history s) (nat num_alternatives)
           (Suc (length rest)) current_best (new_calls s s1 @ ?ev # later)"
  proof (rule rounds_requests_round[OF len ge(5) ge(4)])
    show "sent_messages ?ev = [user (eval_prompt user_input current_best (map got_reply (new_calls s s1)))]"
      using ge(3) by simp
    show "sent_temperature ?ev = float_lit (2 / 10)" by simp
    show "rounds_requests (int_max_str_digits rt) user_input (conversation_history s) (nat num_alternatives)
           (length rest) (winner (int_max_str_digits rt) (got_reply ?ev) current_best (map got_reply (new_calls s s1))) later"
      using ih(2) win ge(3) h2 by simp
  qed
  then show ?case using all by auto
qed

lemma rounds_requests_temperatures:
  assumes "rounds_requests maxd user_input history n r current_best calls"
  shows "map sent_temperature calls = concat (replicate r (round_temperatures n))"
  using assms
proof (induction r arbitrary: current_best calls)
  case 0
  then show ?case by simp
next
  case (Suc r)
  from Suc.prems have a: "n < length calls"
    "map sent_temperature (take n calls) = alt_temperatures n"
    "sent_temperature (calls ! n) = float_lit (2 / 10)"
    "rounds_requests maxd user_input history n r
            (winner maxd (got_reply (calls ! n)) current_best (map got_reply (take n calls)))
            (drop (Suc n) calls)"
    by simp_all
  have split: "calls = take n calls @ calls ! n # drop (Suc n) calls"
    using a(1) by (rule id_take_nth_drop)
  have "map sent_temperature calls =
      map sent_temperature (take n calls) @ sent_temperature (calls ! n) # map sent_temperature (drop (Suc n) calls)"
    by (subst split) simp
  also have "\<dots> = alt_temperatures n @ float_lit (2 / 10) # concat (replicate r (round_temperatures n))"
    unfolding a(2) a(3) Suc.IH[OF a(4)] ..
  finally show ?case by (simp add: round_temperatures_def)
qed

lemma think_and_respond_requests:
  assumes "think_and_respond rt now user_input num_alternatives s = (out, s')"
  shows "\<exists>res calls text0 text1.
     out = Inr res
     \<and> r_thinking_rounds res = fst (determine_thinking_rounds rt user_input s)
     \<and> r_thinking_rounds res = parse_rounds (int_max_str_digits rt) text0
     \<and> api_calls s' = api_calls s @
         [\<lparr>sent_messages = [user (meta_prompt user_input)], sent_temperature = float_lit (3 / 10), got_reply = text0\<rparr>,
          \<lparr>sent_messages = conversation_history s @ [user user_input], sent_temperature = float_lit (7 / 10), got_reply = text1\<rparr>]
         @ calls
     \<and> rounds_requests (int_max_str_digits rt) user_input (conversation_history s) (nat num_alternatives)
           (nat (r_thinking_rounds res)) text1 calls"
proof -
  obtain thinking_rounds s1 where d: "determine_thinking_rounds rt user_input s = (thinking_rounds, s1)"
    by (cases "determine_thinking_rounds rt user_input s")
  note de = determine_thinking_rounds_effect[OF d]
  from determine_thinking_rounds_reply[OF d] obtain text0 where c0:
    "api_calls s1 = api_calls s @
           [\<lparr>sent_messages = [user (meta_prompt user_input)], sent_temperature = float_lit (3 / 10), got_reply = text0\<rparr>]"
    "thinking_rounds = parse_rounds (int_max_str_digits rt) text0"
    by blast
  obtain current_best s2 where c: "call_api rt (conversation_history s1 @ [user user_input]) (float_lit (7 / 10)) s1 = (current_best, s2)"
    by (cases "call_api rt (conversation_history s1 @ [user user_input]) (float_lit (7 / 10)) s1")
  note ce = call_api_effect[OF c]
  let ?c0 = "\<lparr>c_round = 0, c_response = current_best, c_selected = True,
               c_alternative_number = None, c_explanation = None\<rparr>"
  obtain lres s3 where l: "rounds_loop rt user_input num_alternatives [1..thinking_rounds] current_best [?c0] s2 = (lres, s3)"
    by (cases "rounds_loop rt user_input num_alternatives [1..thinking_rounds] current_best [?c0] s2")
  from rounds_loop_effect[OF l] obtain final trace where le:
    "lres = Inr (final, trace)" by auto
  from rounds_loop_requests[OF l] obtain calls where lr:
    "api_calls s3 = api_calls s2 @ calls"
    "rounds_requests (int_max_str_digits rt) user_input (conversation_history s2) (nat num_alternatives)
           (length [1..thinking_rounds]) current_best calls"
    by blast
  let ?res = "\<lparr>r_response = final, r_thinking_rounds = thinking_rounds, r_thinking_history = trace\<rparr>"
  have h1: "conversation_history s1 = conversation_history s" using de(1) by (simp add: same_session_def)
  have h2: "conversation_history s2 = conversation_history s"
    using same_session_trans[OF de(1) ce(1)] by (simp add: same_session_def)
  from assms d c l le have out: "out = Inr ?res"
    and s': "s' = s3\<lparr>conversation_history :=
                 (let history = conversation_history s3 @ [user user_input, assistant final]
                  in if length history > 10 then drop (length history - 10) history else history),
               full_thinking_log := full_thinking_log s3 @
                 [\<lparr>log_timestamp = now, log_user_input = user_input, log_final_response = final,
                   log_thinking_rounds = thinking_rounds, log_thinking_history = trace\<rparr>]\<rparr>"
    by (simp_all add: think_and_respond_def Let_def)
  have calls': "api_calls s' = api_calls s3"
    by (simp add: s')
  have calls: "api_calls s' = api_calls s @
         [\<lparr>sent_messages = [user (meta_prompt user_input)], sent_temperature = float_lit (3 / 10), got_reply = text0\<rparr>,
          \<lparr>sent_messages = conversation_history s @ [user user_input], sent_temperature = float_lit (7 / 10), got_reply = current_best\<rparr>]
         @ calls"
    using calls' lr(1) ce(2) c0(1) h1 by simp
  have rr: "rounds_requests (int_max_str_digits rt) user_input (conversation_history s) (nat num_alternatives)
           (nat (r_thinking_rounds ?res)) current_best calls"
    using lr(2) h2 by simp
  have p: "r_thinking_rounds ?res = fst (determine_thinking_rounds rt user_input s)"
    using d by simp
  have q: "r_thinking_rounds ?res = parse_rounds (int_max_str_digits rt) text0"
    using c0(2) by simp
  show ?thesis
    using out p q calls rr by blast
qed

text \<open>What a turn does, in one statement the properties below are read from.\<close>

lemma think_and_respond_effect:
  assumes "think_and_respond rt now user_input num_alternatives s = (out, s')"
  shows "\<exists>res calls text0 text1 s2.
     out = Inr res \<and> 1 \<le> r_thinking_rounds res \<and> r_thinking_rounds res \<le> 5
     \<and> api_calls s' = api_calls s @
         [\<lparr>sent_messages = [user (meta_prompt user_input)], sent_temperature = float_lit (3 / 10), got_reply = text0\<rparr>,
          \<lparr>sent_messages = conversation_history s @ [user user_input], sent_temperature = float_lit (7 / 10), got_reply = text1\<rparr>]
         @ calls
     \<and> map sent_temperature calls =
         concat (replicate (nat (r_thinking_rounds res)) (round_temperatures (nat num_alternatives)))
     \<and> files s' = files s
     \<and> conversation_history s' =
         (let history = conversation_history s @ [user user_input, assistant (r_response res)]
          in if length history > 10 then drop (length history - 10) history else history)
     \<and> full_thinking_log s' = full_thinking_log s @
         [\<lparr>log_timestamp = now, log_user_input = user_input, log_final_response = r_response res,
           log_thinking_rounds = r_thinking_rounds res, log_thinking_history = r_thinking_history res\<rparr>]
     \<and> same_session s s2
     \<and> rounds_loop rt user_input num_alternatives [1..r_thinking_rounds res] text1
          [\<lparr>c_round = 0, c_response = text1, c_selected = True,
            c_alternative_number = None, c_explanation = None\<rparr>] s2
        = (Inr (r_response res, r_thinking_history res),
           s'\<lparr>conversation_history := conversation_history s, full_thinking_log := full_thinking_log s\<rparr>)"
proof -
  obtain thinking_rounds s1 where d: "determine_thinking_rounds rt user_input s = (thinking_rounds, s1)"
    by (cases "determine_thinking_rounds rt user_input s")
  note de = determine_thinking_rounds_effect[OF d]
  obtain current_best s2 where c: "call_api rt (conversation_history s1 @ [user user_input]) (float_lit (7 / 10)) s1 = (current_best, s2)"
    by (cases "call_api rt (conversation_history s1 @ [user user_input]) (float_lit (7 / 10)) s1")
  note ce = call_api_effect[OF c]
  let ?c0 = "\<lparr>c_round = 0, c_response = current_best, c_selected = True,
               c_alternative_number = None, c_explanation = None\<rparr>"
  obtain lres s3 where l: "rounds_loop rt user_input num_alternatives [1..thinking_rounds] current_best [?c0] s2 = (lres, s3)"
    by (cases "rounds_loop rt user_input num_alternatives [1..thinking_rounds] current_best [?c0] s2")
  from rounds_loop_effect[OF l] obtain final trace calls where le:
    "same_session s2 s3" "lres = Inr (final, trace)" "api_calls s3 = api_calls s2 @ calls"
    "map sent_temperature calls = concat (replicate (nat thinking_rounds) (round_temperatures (nat num_alternatives)))"
    by auto
  let ?res = "\<lparr>r_response = final, r_thinking_rounds = thinking_rounds, r_thinking_history = trace\<rparr>"
  have h1: "conversation_history s1 = conversation_history s" using de(1) by (simp add: same_session_def)
  have ss: "same_session s s3"
    using same_session_trans[OF same_session_trans[OF de(1) ce(1)] le(1)] .
  from assms d c l le(2) have out: "out = Inr ?res"
    and s': "s' = s3\<lparr>conversation_history :=
                 (let history = conversation_history s3 @ [user user_input, assistant final]
                  in if length history > 10 then drop (length history - 10) history else history),
               full_thinking_log := full_thinking_log s3 @
                 [\<lparr>log_timestamp = now, log_user_input = user_input, log_final_response = final,
                   log_thinking_rounds = thinking_rounds, log_thinking_history = trace\<rparr>]\<rparr>"
    by (simp_all add: think_and_respond_def Let_def)
  from de(2) obtain text0 where c0: "api_calls s1 = api_calls s @
           [\<lparr>sent_messages = [user (meta_prompt user_input)], sent_temperature = float_lit (3 / 10), got_reply = text0\<rparr>]"
    by blast
  have calls: "api_calls s' = api_calls s @
         [\<lparr>sent_messages = [user (meta_prompt user_input)], sent_temperature = float_lit (3 / 10), got_reply = text0\<rparr>,
          \<lparr>sent_messages = conversation_history s @ [user user_input], sent_temperature = float_lit (7 / 10), got_reply = current_best\<rparr>]
         @ calls"
    using s' le(3) ce(2) c0 h1 by simp
  have restored: "s'\<lparr>conversation_history := conversation_history s, full_thinking_log := full_thinking_log s\<rparr> = s3"
    using ss by (simp add: s' same_session_def)
  have "out = Inr ?res \<and> 1 \<le> r_thinking_rounds ?res \<and> r_thinking_rounds ?res \<le> 5
     \<and> api_calls s' = api_calls s @
         [\<lparr>sent_messages = [user (meta_prompt user_input)], sent_temperature = float_lit (3 / 10), got_reply = text0\<rparr>,
          \<lparr>sent_messages = conversation_history s @ [user user_input], sent_temperature = float_lit (7 / 10), got_reply = current_best\<rparr>]
         @ calls
     \<and> map sent_temperature calls =
         concat (replicate (nat (r_thinking_rounds ?res)) (round_temperatures (nat num_alternatives)))
     \<and> files s' = files s
     \<and> conversation_history s' =
         (let history = conversation_history s @ [user user_input, assistant (r_response ?res)]
          in if length history > 10 then drop (length history - 10) history else history)
     \<and> full_thinking_log s' = full_thinking_log s @
         [\<lparr>log_timestamp = now, log_user_input = user_input, log_final_response = r_response ?res,
           log_thinking_rounds = r_thinking_rounds ?res, log_thinking_history = r_thinking_history ?res\<rparr>]
     \<and> same_session s s2
     \<and> rounds_loop rt user_input num_alternatives [1..r_thinking_rounds ?res] current_best [?c0] s2
        = (Inr (r_response ?res, r_thinking_history ?res),
           s'\<lparr>conversation_history := conversation_history s, full_thinking_log := full_thinking_log s\<rparr>)"
    using out de(3,4) calls le(4) ss same_session_trans[OF de(1) ce(1)] l le(2) restored
    by (simp add: s' same_session_def)
  then show ?thesis by blast
qed

section \<open>The thinking trace: properties\<close>

text \<open>
  An invariant rule for the loop of rounds: a property of the rounds still to do, the
  current best and the history that holds at the start and that every round keeps, holds
  at the end.
\<close>

lemma rounds_loop_invariant:
  assumes run: "rounds_loop rt user_input num_alternatives rs current_best thinking_history s = (Inr (final, trace), s')"
    and start: "P rs current_best thinking_history"
    and step: "\<And>r rest cb th alternatives new_best expl.
        P (r # rest) cb th \<Longrightarrow> length alternatives = nat num_alternatives \<Longrightarrow>
        new_best = cb \<or> new_best \<in> set alternatives \<Longrightarrow>
        P rest new_best (round_history r cb new_best expl alternatives th)"
  shows "P [] final trace"
  using run start
proof (induction rs arbitrary: current_best thinking_history s)
  case Nil
  then show ?case by simp
next
  case (Cons round_num rest)
  obtain alternatives s1 where g: "generate_alternatives rt current_best user_input num_alternatives s = (alternatives, s1)"
    by (cases "generate_alternatives rt current_best user_input num_alternatives s")
  obtain ev s2 where ev: "evaluate_responses rt user_input current_best alternatives s1 = (ev, s2)"
    by (cases "evaluate_responses rt user_input current_best alternatives s1")
  note ge = generate_alternatives_effect[OF g]
  from evaluate_responses_effect(3)[OF ev] obtain new_best expl
    where w: "ev = Inr (new_best, expl)" "new_best = current_best \<or> new_best \<in> set alternatives" by blast
  have rec: "rounds_loop rt user_input num_alternatives rest new_best
               (round_history round_num current_best new_best expl alternatives thinking_history) s2
             = (Inr (final, trace), s')"
    using Cons.prems(1) g ev w(1) by (auto simp: Let_def round_history_def split: if_splits)
  show ?case
    by (rule Cons.IH[OF rec step[OF Cons.prems(2) ge(6) w(2)]])
qed

lemma rounds_mark_selected: "map c_round (mark_selected r nb e th) = map c_round th"
  by (simp add: mark_selected_def comp_def)

lemma key_attach_explanation: "map key (attach_explanation cb e th) = map key th"
  by (induction th) (simp_all add: key_def)

lemma rounds_attach_explanation: "map c_round (attach_explanation cb e th) = map c_round th"
  by (induction th) simp_all

lemma rounds_store_alternatives: "map c_round (store_alternatives r alts) = replicate (length alts) r"
  by (simp add: store_alternatives_def comp_def case_prod_unfold map_replicate_const length_enumerate)

lemma rounds_round_history:
  "map c_round (round_history r cb nb e alts th) = map c_round th @ replicate (length alts) r"
  by (simp add: round_history_def rounds_mark_selected rounds_attach_explanation rounds_store_alternatives)

lemma rounds_loop_rounds:
  assumes "rounds_loop rt user_input num_alternatives rs current_best thinking_history s = (Inr (final, trace), s')"
  shows "map c_round trace =
     map c_round thinking_history @ concat (map (replicate (nat num_alternatives)) rs)"
proof -
  have "map c_round trace @ concat (map (replicate (nat num_alternatives)) [])
     = map c_round thinking_history @ concat (map (replicate (nat num_alternatives)) rs)"
    by (rule rounds_loop_invariant[OF assms, where P = "\<lambda>rs' cb th.
        map c_round th @ concat (map (replicate (nat num_alternatives)) rs')
        = map c_round thinking_history @ concat (map (replicate (nat num_alternatives)) rs)"])
      (simp_all add: rounds_round_history)
  then show ?thesis by simp
qed

lemma set_store_alternatives:
  "c \<in> set (store_alternatives r alts) \<Longrightarrow> c_round c = r \<and> \<not> c_selected c \<and> c_response c \<in> set alts"
  by (auto simp: store_alternatives_def in_set_enumerate_eq)

lemma store_alternatives_has:
  "a \<in> set alts \<Longrightarrow> \<exists>c \<in> set (store_alternatives r alts). c_round c = r \<and> c_response c = a"
proof -
  assume "a \<in> set alts"
  then obtain i where i: "i < length alts" "alts ! i = a" by (auto simp: in_set_conv_nth)
  then have "(i, a) \<in> set (enumerate 0 alts)" by (auto simp: in_set_enumerate_eq)
  then have "\<lparr>c_round = r, c_response = a, c_selected = False,
               c_alternative_number = Some (i + 1), c_explanation = None\<rparr> \<in> set (store_alternatives r alts)"
    unfolding store_alternatives_def by force
  then show ?thesis by force
qed

lemma coherent_key: "map key th = map key th' \<Longrightarrow> coherent th \<Longrightarrow> coherent th'"
proof -
  assume k: "map key th = map key th'" and c: "coherent th"
  have s: "key ` set th' = key ` set th" using arg_cong[OF k, of set] by simp
  show "coherent th'"
    unfolding coherent_def
  proof (intro ballI impI)
    fix c1 c2 assume a: "c1 \<in> set th'" "c2 \<in> set th'" "c_round c1 = c_round c2 \<and> c_selected c1 \<and> c_selected c2"
    from a(1) s obtain d1 where d1: "d1 \<in> set th" "key d1 = key c1" by (metis imageE imageI)
    from a(2) s obtain d2 where d2: "d2 \<in> set th" "key d2 = key c2" by (metis imageE imageI)
    from c d1 d2 a(3) show "c_response c1 = c_response c2"
      unfolding coherent_def key_def by (metis prod.inject)
  qed
qed

lemma coherent_append_store:
  assumes "coherent th" 
  shows "coherent (th @ store_alternatives r alts)"
  using assms set_store_alternatives unfolding coherent_def
  by (metis Un_iff set_append)

lemma coherent_mark_selected:
  assumes "coherent th" "\<forall>c \<in> set th. c_round c \<noteq> r"
  shows "coherent (mark_selected r nb e (th @ store_alternatives r alts))"
  unfolding coherent_def
proof (intro ballI impI)
  fix c1 c2
  assume a: "c1 \<in> set (mark_selected r nb e (th @ store_alternatives r alts))"
     "c2 \<in> set (mark_selected r nb e (th @ store_alternatives r alts))"
     "c_round c1 = c_round c2 \<and> c_selected c1 \<and> c_selected c2"
  have old: "c \<in> set th \<or> (c_round c = r \<and> (c_selected c \<longrightarrow> c_response c = nb))" 
    if "c \<in> set (mark_selected r nb e (th @ store_alternatives r alts))" for c
    using that assms(2) set_store_alternatives[of _ r alts]
    by (auto simp: mark_selected_def)
  from old[OF a(1)] old[OF a(2)] a(3) assms show "c_response c1 = c_response c2"
    unfolding coherent_def by metis
qed

lemma coherent_round_history:
  assumes "coherent th" "\<forall>c \<in> set th. c_round c \<noteq> r"
  shows "coherent (round_history r cb nb e alts th)"
proof (cases "nb = cb")
  case True
  then show ?thesis
    using coherent_key[OF key_attach_explanation[symmetric] coherent_append_store[OF assms(1)]]
    by (simp add: round_history_def)
next
  case False
  then show ?thesis
    using coherent_mark_selected[OF assms] by (simp add: round_history_def)
qed

lemma holder_round_history:
  assumes "\<exists>c \<in> set th. c_selected c \<and> c_response c = cb" "nb = cb \<or> nb \<in> set alts"
  shows "\<exists>c \<in> set (round_history r cb nb e alts th). c_selected c \<and> c_response c = nb"
proof (cases "nb = cb")
  case True
  from assms(1) obtain c where c: "c \<in> set th" "c_selected c" "c_response c = cb" by blast
  have "key c \<in> set (map key (attach_explanation cb e (th @ store_alternatives r alts)))"
    using c(1) by (simp add: key_attach_explanation)
  then obtain c' where "c' \<in> set (attach_explanation cb e (th @ store_alternatives r alts))" "key c' = key c"
    by auto
  then show ?thesis using True c(2,3) by (auto simp: round_history_def key_def)
next
  case False
  with assms(2) have "nb \<in> set alts" by simp
  from store_alternatives_has[OF this, of r] obtain c where
    c: "c \<in> set (store_alternatives r alts)" "c_round c = r" "c_response c = nb" by blast
  have rh: "round_history r cb nb e alts th = mark_selected r nb e (th @ store_alternatives r alts)"
    using False by (simp add: round_history_def)
  have m: "c\<lparr>c_selected := True, c_explanation := Some e\<rparr> \<in> set (mark_selected r nb e (th @ store_alternatives r alts))"
    using c by (force simp: mark_selected_def)
  show ?thesis
    unfolding rh using m c(3)
    by (intro bexI[of _ "c\<lparr>c_selected := True, c_explanation := Some e\<rparr>"]) simp_all
qed

lemma head_round_history:
  assumes "th = c # rest_th" "c_round c \<noteq> r"
  shows "\<exists>c' rest_th'. round_history r cb nb e alts th = c' # rest_th' \<and> key c' = key c"
proof (cases "nb = cb")
  case True
  have rh: "round_history r cb nb e alts th = attach_explanation cb e (th @ store_alternatives r alts)"
    using True by (simp add: round_history_def)
  have "map key (round_history r cb nb e alts th) = map key (th @ store_alternatives r alts)"
    unfolding rh by (rule key_attach_explanation)
  then have "map key (round_history r cb nb e alts th) = key c # map key (rest_th @ store_alternatives r alts)"
    using assms(1) by simp
  then show ?thesis by (cases "round_history r cb nb e alts th") auto
next
  case False
  then show ?thesis using assms by (simp add: round_history_def mark_selected_def)
qed

lemma rounds_loop_selection:
  assumes run: "rounds_loop rt user_input num_alternatives rs current_best [c0] s = (Inr (final, trace), s')"
    and c0: "c_selected c0" "c_response c0 = current_best" "c_round c0 \<notin> set rs" and d: "distinct rs"
  shows "coherent trace \<and> (\<exists>c \<in> set trace. c_selected c \<and> c_response c = final)
     \<and> (\<exists>c' tl'. trace = c' # tl' \<and> key c' = key c0)"
proof -
  let ?P = "\<lambda>rs cb th. distinct rs \<and> coherent th \<and> (\<forall>c \<in> set th. c_round c \<notin> set rs)
     \<and> (\<exists>c \<in> set th. c_selected c \<and> c_response c = cb)
     \<and> (\<exists>c' tl'. th = c' # tl' \<and> key c' = key c0)"
  have "?P [] final trace"
  proof (rule rounds_loop_invariant[OF run, where P = ?P])
    show "?P rs current_best [c0]"
      using c0 d by (simp add: coherent_def)
  next
    fix r rest cb th alternatives new_best expl
    assume p: "?P (r # rest) cb th" and n: "length alternatives = nat num_alternatives"
      and w: "new_best = cb \<or> new_best \<in> set alternatives"
    from p have fresh: "\<forall>c \<in> set th. c_round c \<noteq> r" by auto
    from p obtain c' tl' where h: "th = c' # tl'" "key c' = key c0" by blast
    have r0: "c_round c' \<noteq> r" using fresh h(1) by simp
    have rounds: "\<forall>c \<in> set (round_history r cb new_best expl alternatives th). c_round c \<notin> set rest"
    proof
      fix c assume "c \<in> set (round_history r cb new_best expl alternatives th)"
      then have "c_round c \<in> set (map c_round th @ replicate (length alternatives) r)"
        using rounds_round_history[of r cb new_best expl alternatives th] by (metis image_eqI set_map)
      then have "c_round c \<in> c_round ` set th \<or> c_round c = r" by auto
      then show "c_round c \<notin> set rest" using p by auto
    qed
    from head_round_history[OF h(1) r0, of cb new_best expl alternatives] h(2)
    have hd': "\<exists>c' tl'. round_history r cb new_best expl alternatives th = c' # tl' \<and> key c' = key c0"
      by auto
    show "?P rest new_best (round_history r cb new_best expl alternatives th)"
      using p coherent_round_history[OF _ fresh] holder_round_history[OF _ w] rounds hd'
      by simp
  qed
  then show ?thesis by simp
qed

section \<open>Alternative generation: properties\<close>

text \<open>
  Claim C7. \<^verbatim>\<open>_generate_alternatives\<close> returns one item per index of
  \<^verbatim>\<open>range(num_alternatives)\<close>, so exactly \<open>num_alternatives\<close> items when that is
  not negative; the items are the texts the collaborator returned, whatever they are (an
  error text fills its slot like any other), in the order of the calls; the call of
  index \<open>i\<close> has the temperature \<^verbatim>\<open>0.7 + 0.1 * i\<close> as Python computes it on doubles
  (the source writes \<^verbatim>\<open>0.7 + i * 0.1\<close>, the same double); and every call sends the
  conversation history followed by the one instruction built from the prompt and the
  current best, which does not mention the other alternatives.
\<close>

theorem generate_alternatives_count_and_calls:
  "length (fst (generate_alternatives rt base_response prompt num_alternatives s)) = nat num_alternatives
   \<and> (0 \<le> num_alternatives \<longrightarrow>
        int (length (fst (generate_alternatives rt base_response prompt num_alternatives s))) = num_alternatives)
   \<and> api_calls (snd (generate_alternatives rt base_response prompt num_alternatives s)) =
       api_calls s @ new_calls s (snd (generate_alternatives rt base_response prompt num_alternatives s))
   \<and> fst (generate_alternatives rt base_response prompt num_alternatives s) =
       map got_reply (new_calls s (snd (generate_alternatives rt base_response prompt num_alternatives s)))
   \<and> map sent_temperature (new_calls s (snd (generate_alternatives rt base_response prompt num_alternatives s))) =
       map (\<lambda>i. float_add (float_lit (7 / 10)) (float_mul (float_lit (1 / 10)) (float_of_nat i)))
         [0..<nat num_alternatives]
   \<and> map sent_messages (new_calls s (snd (generate_alternatives rt base_response prompt num_alternatives s))) =
       replicate (nat num_alternatives) (conversation_history s @ [user (alt_prompt prompt base_response)])"
proof -
  obtain result s' where g: "generate_alternatives rt base_response prompt num_alternatives s = (result, s')"
    by (cases "generate_alternatives rt base_response prompt num_alternatives s")
  note e = generate_alternatives_effect[OF g]
  have c: "float_mul (float_lit (1 / 10)) (float_of_nat i) = float_mul (float_of_nat i) (float_lit (1 / 10))" for i
    by (rule float_mul_commute)
  show ?thesis
    using e(2-6) by (simp add: g alt_temperatures_def c)
qed

text \<open>The theorem of claim C7 at concrete inputs.\<close>

theorem generate_alternatives_count_and_calls_witness:
  "(0::int) \<le> 3
   \<and> int (length (fst (generate_alternatives failing ''A0'' ''Q'' 3 (fresh ())))) = 3
   \<and> fst (generate_alternatives failing ''A0'' ''Q'' 3 (fresh ())) =
       [''Error: Could not get response from OpenAI API'', ''Error: Could not get response from OpenAI API'',
        ''Error: Could not get response from OpenAI API'']
   \<and> map sent_temperature (new_calls (fresh ()) (snd (generate_alternatives failing ''A0'' ''Q'' 3 (fresh ())))) =
       [3152519739159347 / 4503599627370496, 7205759403792793 / 9007199254740992,
        2026619832316723 / 2251799813685248]
   \<and> map sent_messages (new_calls (fresh ()) (snd (generate_alternatives failing ''A0'' ''Q'' 3 (fresh ())))) =
       [[user (alt_prompt ''Q'' ''A0'')], [user (alt_prompt ''Q'' ''A0'')], [user (alt_prompt ''Q'' ''A0'')]]"
proof -
  note t = generate_alternatives_count_and_calls[of failing "''A0''" "''Q''" 3 "fresh ()"]
  have h: "conversation_history (fresh ()) = []" by (simp add: fresh_def)
  have n: "nat 3 = Suc (Suc (Suc 0))" by simp
  have idx: "[0..<nat 3] = [0, 1, 2]" by code_simp
  have r: "fst (generate_alternatives failing ''A0'' ''Q'' 3 (fresh ())) =
       [''Error: Could not get response from OpenAI API'', ''Error: Could not get response from OpenAI API'',
        ''Error: Could not get response from OpenAI API'']"
    by (simp add: generate_alternatives_def n upt_rec call_api_def failing_def split: prod.splits)
  have l: "int (length (fst (generate_alternatives failing ''A0'' ''Q'' 3 (fresh ())))) = 3"
    using t[THEN conjunct2, THEN conjunct1] by simp
  have temps: "map sent_temperature (new_calls (fresh ()) (snd (generate_alternatives failing ''A0'' ''Q'' 3 (fresh ())))) =
       [3152519739159347 / 4503599627370496, 7205759403792793 / 9007199254740992,
        2026619832316723 / 2251799813685248]"
    using t[THEN conjunct2, THEN conjunct2, THEN conjunct2, THEN conjunct2, THEN conjunct1]
    unfolding idx list.map float_mul_commute[of "float_lit (1 / 10)"]
      alt_temperature_0 alt_temperature_1 alt_temperature_2 .
  have msgs: "map sent_messages (new_calls (fresh ()) (snd (generate_alternatives failing ''A0'' ''Q'' 3 (fresh ())))) =
       [[user (alt_prompt ''Q'' ''A0'')], [user (alt_prompt ''Q'' ''A0'')], [user (alt_prompt ''Q'' ''A0'')]]"
    using t[THEN conjunct2, THEN conjunct2, THEN conjunct2, THEN conjunct2, THEN conjunct2]
    by (simp add: h numeral_3_eq_3)
  show ?thesis using r l temps msgs by simp
qed

section \<open>A turn: properties\<close>

text \<open>
  Claim C9. A turn returns, and with \<open>R\<close> the number of rounds planned, which is what
  \<^verbatim>\<open>_determine_thinking_rounds\<close> returns on the reply to the first request, and \<open>N\<close>
  the number of alternatives, it issues \<open>2 + R * (N + 1)\<close> requests, added in this order
  to those issued before: the planning query (temperature 0.3), the initial answer (0.7,
  the history and the user input), then for each round its \<open>N\<close> alternative requests
  (the history and the instruction on the current best, 0.7 + 0.1 * i) followed by
  one evaluation request (0.2) on the replies to those \<open>N\<close>.
\<close>

theorem think_and_respond_call_sequence:
  "\<exists>res. fst (think_and_respond rt now user_input num_alternatives s) = Inr res
     \<and> r_thinking_rounds res = fst (determine_thinking_rounds rt user_input s)
     \<and> r_thinking_rounds res = parse_rounds (int_max_str_digits rt)
          (got_reply (new_calls s (snd (think_and_respond rt now user_input num_alternatives s)) ! 0))
     \<and> api_calls (snd (think_and_respond rt now user_input num_alternatives s)) =
         api_calls s @ new_calls s (snd (think_and_respond rt now user_input num_alternatives s))
     \<and> length (new_calls s (snd (think_and_respond rt now user_input num_alternatives s))) =
         2 + nat (r_thinking_rounds res) * (nat num_alternatives + 1)
     \<and> map sent_temperature (new_calls s (snd (think_and_respond rt now user_input num_alternatives s))) =
         turn_temperatures (nat (r_thinking_rounds res)) (nat num_alternatives)
     \<and> map sent_messages (take 2 (new_calls s (snd (think_and_respond rt now user_input num_alternatives s)))) =
         [[user (meta_prompt user_input)], conversation_history s @ [user user_input]]
     \<and> rounds_requests (int_max_str_digits rt) user_input (conversation_history s) (nat num_alternatives)
          (nat (r_thinking_rounds res))
          (got_reply (new_calls s (snd (think_and_respond rt now user_input num_alternatives s)) ! 1))
          (drop 2 (new_calls s (snd (think_and_respond rt now user_input num_alternatives s))))"
proof -
  obtain out s' where t: "think_and_respond rt now user_input num_alternatives s = (out, s')"
    by (cases "think_and_respond rt now user_input num_alternatives s")
  from think_and_respond_requests[OF t] obtain res calls text0 text1 where e:
    "out = Inr res"
    "r_thinking_rounds res = fst (determine_thinking_rounds rt user_input s)"
    "r_thinking_rounds res = parse_rounds (int_max_str_digits rt) text0"
    "api_calls s' = api_calls s @
         [\<lparr>sent_messages = [user (meta_prompt user_input)], sent_temperature = float_lit (3 / 10), got_reply = text0\<rparr>,
          \<lparr>sent_messages = conversation_history s @ [user user_input], sent_temperature = float_lit (7 / 10), got_reply = text1\<rparr>]
         @ calls"
    "rounds_requests (int_max_str_digits rt) user_input (conversation_history s) (nat num_alternatives)
           (nat (r_thinking_rounds res)) text1 calls"
    by blast
  have n: "new_calls s s' =
         [\<lparr>sent_messages = [user (meta_prompt user_input)], sent_temperature = float_lit (3 / 10), got_reply = text0\<rparr>,
          \<lparr>sent_messages = conversation_history s @ [user user_input], sent_temperature = float_lit (7 / 10), got_reply = text1\<rparr>]
         @ calls"
    using e(4) by (rule new_calls_append)
  note temps = rounds_requests_temperatures[OF e(5)]
  have "length calls = length (map sent_temperature calls)" by simp
  also have "\<dots> = nat (r_thinking_rounds res) * (nat num_alternatives + 1)"
    unfolding temps by (simp add: length_concat round_temperatures_def length_alt_temperatures sum_list_replicate)
  finally have len: "length calls = nat (r_thinking_rounds res) * (nat num_alternatives + 1)" .
  have p1: "fst (think_and_respond rt now user_input num_alternatives s) = Inr res"
    using e(1) by (simp add: t)
  have p2: "r_thinking_rounds res = parse_rounds (int_max_str_digits rt)
          (got_reply (new_calls s (snd (think_and_respond rt now user_input num_alternatives s)) ! 0))"
    using e(3) by (simp add: t n)
  have p3: "api_calls (snd (think_and_respond rt now user_input num_alternatives s)) =
         api_calls s @ new_calls s (snd (think_and_respond rt now user_input num_alternatives s))"
    using e(4) by (simp add: t n)
  have p4: "length (new_calls s (snd (think_and_respond rt now user_input num_alternatives s))) =
         2 + nat (r_thinking_rounds res) * (nat num_alternatives + 1)"
    using len by (simp add: t n)
  have p5: "map sent_temperature (new_calls s (snd (think_and_respond rt now user_input num_alternatives s))) =
         turn_temperatures (nat (r_thinking_rounds res)) (nat num_alternatives)"
    using temps by (simp add: t n turn_temperatures_def)
  have p6: "map sent_messages (take 2 (new_calls s (snd (think_and_respond rt now user_input num_alternatives s)))) =
         [[user (meta_prompt user_input)], conversation_history s @ [user user_input]]"
    by (simp add: t n)
  have p7: "rounds_requests (int_max_str_digits rt) user_input (conversation_history s) (nat num_alternatives)
          (nat (r_thinking_rounds res))
          (got_reply (new_calls s (snd (think_and_respond rt now user_input num_alternatives s)) ! 1))
          (drop 2 (new_calls s (snd (think_and_respond rt now user_input num_alternatives s))))"
    using e(5) by (simp add: t n)
  show ?thesis
    by (intro exI[of _ res] conjI p1 e(2) p2 p3 p4 p5 p6 p7)
qed

text \<open>The theorem of claim C9 at concrete inputs.\<close>

theorem think_and_respond_call_sequence_witness:
  "fst (determine_thinking_rounds (scripted 4300) ''Explain recursion''
          (fresh [''2'', ''A0'', ''A1'', ''1'' @ nl @ ''better'', ''A2'', ''current''])) = 2
   \<and> r_thinking_rounds (projr (fst (think_and_respond (scripted 4300) ''T'' ''Explain recursion'' 1
          (fresh [''2'', ''A0'', ''A1'', ''1'' @ nl @ ''better'', ''A2'', ''current''])))) = 2
   \<and> length (new_calls (fresh [''2'', ''A0'', ''A1'', ''1'' @ nl @ ''better'', ''A2'', ''current''])
        (snd (think_and_respond (scripted 4300) ''T'' ''Explain recursion'' 1
          (fresh [''2'', ''A0'', ''A1'', ''1'' @ nl @ ''better'', ''A2'', ''current''])))) = 6
   \<and> map sent_temperature (new_calls (fresh [''2'', ''A0'', ''A1'', ''1'' @ nl @ ''better'', ''A2'', ''current''])
        (snd (think_and_respond (scripted 4300) ''T'' ''Explain recursion'' 1
          (fresh [''2'', ''A0'', ''A1'', ''1'' @ nl @ ''better'', ''A2'', ''current''])))) =
       [5404319552844595 / 18014398509481984, 3152519739159347 / 4503599627370496,
        3152519739159347 / 4503599627370496, 3602879701896397 / 18014398509481984,
        3152519739159347 / 4503599627370496, 3602879701896397 / 18014398509481984]
   \<and> rounds_requests 4300 ''Explain recursion'' [] 1 2 ''A0''
        (drop 2 (new_calls (fresh [''2'', ''A0'', ''A1'', ''1'' @ nl @ ''better'', ''A2'', ''current''])
        (snd (think_and_respond (scripted 4300) ''T'' ''Explain recursion'' 1
          (fresh [''2'', ''A0'', ''A1'', ''1'' @ nl @ ''better'', ''A2'', ''current''])))))"
proof -
  let ?s = "fresh [''2'', ''A0'', ''A1'', ''1'' @ nl @ ''better'', ''A2'', ''current'']"
  let ?T = "think_and_respond (scripted 4300) ''T'' ''Explain recursion'' 1 ?s"
  have f: "r_thinking_rounds (projr (fst ?T)) = 2" by code_simp
  have a0: "got_reply (new_calls ?s (snd ?T) ! 1) = ''A0''" by code_simp
  have h: "conversation_history ?s = []" by (simp add: fresh_def)
  have m: "int_max_str_digits (scripted 4300) = 4300" by (simp add: scripted_def)
  from think_and_respond_call_sequence[of "scripted 4300" "''T''" "''Explain recursion''" 1 ?s]
  obtain res where r: "fst ?T = Inr res"
     "r_thinking_rounds res = fst (determine_thinking_rounds (scripted 4300) ''Explain recursion'' ?s)"
     "length (new_calls ?s (snd ?T)) = 2 + nat (r_thinking_rounds res) * (nat 1 + 1)"
     "map sent_temperature (new_calls ?s (snd ?T)) = turn_temperatures (nat (r_thinking_rounds res)) (nat 1)"
     "rounds_requests (int_max_str_digits (scripted 4300)) ''Explain recursion'' (conversation_history ?s) (nat 1)
          (nat (r_thinking_rounds res)) (got_reply (new_calls ?s (snd ?T) ! 1)) (drop 2 (new_calls ?s (snd ?T)))"
    by blast
  have two: "r_thinking_rounds res = 2" using f r(1) by simp
  have d: "fst (determine_thinking_rounds (scripted 4300) ''Explain recursion'' ?s) = 2"
    using r(2) two by simp
  have l: "length (new_calls ?s (snd ?T)) = 6" using r(3) unfolding two by simp
  have tt: "turn_temperatures (nat 2) (nat 1) =
       [5404319552844595 / 18014398509481984, 3152519739159347 / 4503599627370496,
        3152519739159347 / 4503599627370496, 3602879701896397 / 18014398509481984,
        3152519739159347 / 4503599627370496, 3602879701896397 / 18014398509481984]"
    by code_simp
  have t: "map sent_temperature (new_calls ?s (snd ?T)) =
       [5404319552844595 / 18014398509481984, 3152519739159347 / 4503599627370496,
        3152519739159347 / 4503599627370496, 3602879701896397 / 18014398509481984,
        3152519739159347 / 4503599627370496, 3602879701896397 / 18014398509481984]"
    using r(4) unfolding two tt .
  have n1: "nat 1 = 1" and n2: "nat 2 = 2" by simp_all
  have q: "rounds_requests 4300 ''Explain recursion'' [] 1 2 ''A0'' (drop 2 (new_calls ?s (snd ?T)))"
    using r(5) unfolding two a0 h m n1 n2 .
  show ?thesis using d f l t q by blast
qed

text \<open>
  Claim C6. After a turn the conversation history holds at most ten messages. When the
  old history and the two new messages are at most ten they are all kept; when they are
  more than ten, exactly the last ten of them are kept, in their order.
\<close>

theorem conversation_history_bounded:
  "\<exists>res. fst (think_and_respond rt now user_input num_alternatives s) = Inr res
     \<and> length (conversation_history (snd (think_and_respond rt now user_input num_alternatives s))) \<le> 10
     \<and> (length (conversation_history s) + 2 \<le> 10 \<longrightarrow>
          conversation_history (snd (think_and_respond rt now user_input num_alternatives s)) =
            conversation_history s @ [user user_input, assistant (r_response res)])
     \<and> (10 < length (conversation_history s) + 2 \<longrightarrow>
          length (conversation_history (snd (think_and_respond rt now user_input num_alternatives s))) = 10
          \<and> conversation_history (snd (think_and_respond rt now user_input num_alternatives s)) =
              drop (length (conversation_history s) + 2 - 10)
                (conversation_history s @ [user user_input, assistant (r_response res)]))"
proof -
  obtain out s' where t: "think_and_respond rt now user_input num_alternatives s = (out, s')"
    by (cases "think_and_respond rt now user_input num_alternatives s")
  from think_and_respond_effect[OF t] obtain res where e:
    "out = Inr res"
    "conversation_history s' =
         (let history = conversation_history s @ [user user_input, assistant (r_response res)]
          in if length history > 10 then drop (length history - 10) history else history)"
    by blast
  have "fst (think_and_respond rt now user_input num_alternatives s) = Inr res
     \<and> length (conversation_history s') \<le> 10
     \<and> (length (conversation_history s) + 2 \<le> 10 \<longrightarrow>
          conversation_history s' = conversation_history s @ [user user_input, assistant (r_response res)])
     \<and> (10 < length (conversation_history s) + 2 \<longrightarrow>
          length (conversation_history s') = 10
          \<and> conversation_history s' =
              drop (length (conversation_history s) + 2 - 10)
                (conversation_history s @ [user user_input, assistant (r_response res)]))"
    using e by (simp add: t Let_def)
  then show ?thesis by (auto simp: t)
qed

text \<open>The theorem of claim C6 at concrete inputs.\<close>

theorem conversation_history_bounded_witness:
  "10 < length (conversation_history full_session) + 2
   \<and> length (conversation_history (snd (think_and_respond (scripted 4300) ''T'' ''q6'' 1 full_session))) = 10
   \<and> conversation_history (snd (think_and_respond (scripted 4300) ''T'' ''q6'' 1 full_session)) =
        [user ''q2'', assistant ''r2'', user ''q3'', assistant ''r3'', user ''q4'', assistant ''r4'',
         user ''q5'', assistant ''r5'', user ''q6'', assistant ''A0'']"
proof -
  let ?T = "think_and_respond (scripted 4300) ''T'' ''q6'' 1 full_session"
  have f: "r_response (projr (fst ?T)) = ''A0''" by code_simp
  have h: "conversation_history full_session =
        [user ''q1'', assistant ''r1'', user ''q2'', assistant ''r2'', user ''q3'', assistant ''r3'',
         user ''q4'', assistant ''r4'', user ''q5'', assistant ''r5'']"
    by (simp add: full_session_def)
  have a: "10 < length (conversation_history full_session) + 2" by (simp add: h)
  from conversation_history_bounded[of "scripted 4300" "''T''" "''q6''" 1 full_session]
  obtain res where r: "fst ?T = Inr res"
    "10 < length (conversation_history full_session) + 2 \<longrightarrow>
          length (conversation_history (snd ?T)) = 10
          \<and> conversation_history (snd ?T) =
              drop (length (conversation_history full_session) + 2 - 10)
                (conversation_history full_session @ [user ''q6'', assistant (r_response res)])"
    by blast
  have res: "r_response res = ''A0''" using f r(1) by simp
  from r(2) a have c: "length (conversation_history (snd ?T)) = 10"
    "conversation_history (snd ?T) =
              drop (length (conversation_history full_session) + 2 - 10)
                (conversation_history full_session @ [user ''q6'', assistant (r_response res)])"
    by blast+
  have d: "conversation_history (snd ?T) =
        [user ''q2'', assistant ''r2'', user ''q3'', assistant ''r3'', user ''q4'', assistant ''r4'',
         user ''q5'', assistant ''r5'', user ''q6'', assistant ''A0'']"
    unfolding c(2) res h by simp
  show ?thesis using a c(1) d by blast
qed

section \<open>The thinking trace: the claims\<close>

lemma agreeing_distinct_short:
  assumes "distinct (map f xs)" and "\<forall>x \<in> set xs. \<forall>y \<in> set xs. f x = f y"
  shows "length xs \<le> 1"
proof (cases xs)
  case Nil
  then show ?thesis by simp
next
  case xs: (Cons x ys)
  show ?thesis
  proof (cases ys)
    case Nil
    then show ?thesis using xs by simp
  next
    case (Cons y zs)
    have mx: "x \<in> set xs" and my: "y \<in> set xs"
      unfolding xs Cons by simp_all
    have eq: "f x = f y"
      using assms(2) mx my by blast
    have "f x \<noteq> f y"
      using assms(1) unfolding xs Cons by simp
    then show ?thesis using eq by blast
  qed
qed

lemma coherent_selected_in_round:
  assumes "coherent th" and "distinct (map c_response (filter (\<lambda>c. c_round c = r) th))"
  shows "selected_in_round r th \<le> 1"
proof -
  let ?sel = "filter (\<lambda>c. c_round c = r \<and> c_selected c) th"
  have e: "?sel = filter c_selected (filter (\<lambda>c. c_round c = r) th)"
    by simp
  have d: "distinct (map c_response ?sel)"
    unfolding e using assms(2) by (rule distinct_map_filter)
  have a: "\<forall>x \<in> set ?sel. \<forall>y \<in> set ?sel. c_response x = c_response y"
  proof (intro ballI)
    fix x y assume "x \<in> set ?sel" "y \<in> set ?sel"
    then have "x \<in> set th" "y \<in> set th" "c_round x = c_round y \<and> c_selected x \<and> c_selected y"
      by simp_all
    then show "c_response x = c_response y"
      using assms(1) unfolding coherent_def by blast
  qed
  have "length ?sel \<le> 1"
    using d a by (rule agreeing_distinct_short)
  then show ?thesis by (simp add: selected_in_round_def)
qed

lemma later_rounds_positive: "x \<in> set (concat (map (replicate n) [1..r])) \<Longrightarrow> 1 \<le> x"
  by auto

text \<open>
  Claim C1, as stated, fails: when the evaluation keeps the current best, no candidate of
  that round is marked selected. Here the reply to the evaluation query is
  \<^verbatim>\<open>current\<close>, and round 1 has two candidates, none of them selected.
\<close>

theorem one_selected_per_round_counterexample:
  "fst (think_and_respond (scripted 4300) ''T'' ''Explain recursion'' 2
          (fresh [''1'', ''A0'', ''A1'', ''A2'', ''current'']))
     = Inr \<lparr>r_response = ''A0'', r_thinking_rounds = 1, r_thinking_history =
         [\<lparr>c_round = 0, c_response = ''A0'', c_selected = True, c_alternative_number = None,
            c_explanation = Some ''No explanation provided''\<rparr>,
          \<lparr>c_round = 1, c_response = ''A1'', c_selected = False, c_alternative_number = Some 1, c_explanation = None\<rparr>,
          \<lparr>c_round = 1, c_response = ''A2'', c_selected = False, c_alternative_number = Some 2, c_explanation = None\<rparr>]\<rparr>
   \<and> selected_in_round 1 (r_thinking_history (projr (fst (think_and_respond (scripted 4300) ''T'' ''Explain recursion'' 2
          (fresh [''1'', ''A0'', ''A1'', ''A2'', ''current''])))))
     = 0"
  by code_simp

text \<open>
  Claim C1, amended. A turn returns a trace whose first candidate is the only one of
  round 0: it carries the initial answer (the reply to the second request of the turn)
  and is marked selected. The candidates after it are those of rounds 1 to \<open>R\<close> in
  order, \<open>N\<close> for each round. The candidates of one round that are marked selected all
  carry the same text, so a round whose candidates differ pairwise in their text has at
  most one selected; and the final answer is the text of a selected candidate.
\<close>

theorem thinking_trace_selection:
  "\<exists>res c0 rest. fst (think_and_respond rt now user_input num_alternatives s) = Inr res
     \<and> r_thinking_history res = c0 # rest
     \<and> c_round c0 = 0 \<and> c_selected c0
     \<and> c_response c0 = got_reply (new_calls s (snd (think_and_respond rt now user_input num_alternatives s)) ! 1)
     \<and> filter (\<lambda>c. c_round c = 0) (r_thinking_history res) = [c0]
     \<and> map c_round rest = concat (map (replicate (nat num_alternatives)) [1..r_thinking_rounds res])
     \<and> (\<forall>c1 \<in> set (r_thinking_history res). \<forall>c2 \<in> set (r_thinking_history res).
           c_round c1 = c_round c2 \<and> c_selected c1 \<and> c_selected c2 \<longrightarrow> c_response c1 = c_response c2)
     \<and> (\<forall>r. distinct (map c_response (filter (\<lambda>c. c_round c = r) (r_thinking_history res))) \<longrightarrow>
           selected_in_round r (r_thinking_history res) \<le> 1)
     \<and> (\<exists>c \<in> set (r_thinking_history res). c_selected c \<and> c_response c = r_response res)"
proof -
  obtain out s' where t: "think_and_respond rt now user_input num_alternatives s = (out, s')"
    by (cases "think_and_respond rt now user_input num_alternatives s")
  from think_and_respond_effect[OF t] obtain res calls text0 text1 s2 s3 where e:
    "out = Inr res"
    "api_calls s' = api_calls s @
         [\<lparr>sent_messages = [user (meta_prompt user_input)], sent_temperature = float_lit (3 / 10), got_reply = text0\<rparr>,
          \<lparr>sent_messages = conversation_history s @ [user user_input], sent_temperature = float_lit (7 / 10), got_reply = text1\<rparr>]
         @ calls"
    "rounds_loop rt user_input num_alternatives [1..r_thinking_rounds res] text1
          [\<lparr>c_round = 0, c_response = text1, c_selected = True,
            c_alternative_number = None, c_explanation = None\<rparr>] s2
        = (Inr (r_response res, r_thinking_history res), s3)"
    by blast
  let ?c = "\<lparr>c_round = 0, c_response = text1, c_selected = True,
            c_alternative_number = None, c_explanation = None\<rparr>"
  have n: "new_calls s s' ! 1 =
     \<lparr>sent_messages = conversation_history s @ [user user_input], sent_temperature = float_lit (7 / 10), got_reply = text1\<rparr>"
    using new_calls_append[OF e(2)] by simp
  have sel: "coherent (r_thinking_history res)
     \<and> (\<exists>c \<in> set (r_thinking_history res). c_selected c \<and> c_response c = r_response res)
     \<and> (\<exists>c' tl'. r_thinking_history res = c' # tl' \<and> key c' = key ?c)"
    by (rule rounds_loop_selection[OF e(3)]) auto
  then obtain c0 rest where h: "r_thinking_history res = c0 # rest" "key c0 = key ?c" by blast
  have rs: "map c_round (r_thinking_history res) =
     map c_round [?c] @ concat (map (replicate (nat num_alternatives)) [1..r_thinking_rounds res])"
    by (rule rounds_loop_rounds[OF e(3)])
  then have rest: "map c_round rest = concat (map (replicate (nat num_alternatives)) [1..r_thinking_rounds res])"
    using h(1) by simp
  have "\<forall>c \<in> set rest. c_round c \<noteq> 0"
  proof
    fix c assume "c \<in> set rest"
    then have "c_round c \<in> set (map c_round rest)" by simp
    then have "1 \<le> c_round c" unfolding rest by (rule later_rounds_positive)
    then show "c_round c \<noteq> 0" by simp
  qed
  then have f0: "filter (\<lambda>c. c_round c = 0) rest = []" by (simp add: filter_empty_conv)
  have k: "c_round c0 = 0" "c_selected c0" "c_response c0 = text1"
    using h(2) by (simp_all add: key_def)
  have p1: "fst (think_and_respond rt now user_input num_alternatives s) = Inr res"
    using e(1) by (simp add: t)
  have p2: "c_response c0 = got_reply (new_calls s (snd (think_and_respond rt now user_input num_alternatives s)) ! 1)"
    using k(3) n by (simp add: t)
  have p3: "filter (\<lambda>c. c_round c = 0) (r_thinking_history res) = [c0]"
    unfolding h(1) using k(1) f0 by simp
  have p4: "\<forall>c1 \<in> set (r_thinking_history res). \<forall>c2 \<in> set (r_thinking_history res).
           c_round c1 = c_round c2 \<and> c_selected c1 \<and> c_selected c2 \<longrightarrow> c_response c1 = c_response c2"
    using sel unfolding coherent_def by (rule conjunct1)
  have p5: "\<exists>c \<in> set (r_thinking_history res). c_selected c \<and> c_response c = r_response res"
    using sel by (elim conjE)
  have p6: "\<forall>r. distinct (map c_response (filter (\<lambda>c. c_round c = r) (r_thinking_history res))) \<longrightarrow>
           selected_in_round r (r_thinking_history res) \<le> 1"
    using sel coherent_selected_in_round by blast
  show ?thesis
    by (intro exI[of _ res] exI[of _ c0] exI[of _ rest] conjI p1 h(1) k(1) k(2) p2 p3 rest p4 p6 p5)
qed

text \<open>The theorem of claim C1 at concrete inputs.\<close>

theorem thinking_trace_selection_witness:
  "fst (think_and_respond (scripted 4300) ''T'' ''Explain recursion'' 2
          (fresh [''1'', ''A0'', ''B'', ''B'', ''1'' @ nl @ ''fine'']))
     = Inr \<lparr>r_response = ''B'', r_thinking_rounds = 1, r_thinking_history =
         [\<lparr>c_round = 0, c_response = ''A0'', c_selected = True, c_alternative_number = None, c_explanation = None\<rparr>,
          \<lparr>c_round = 1, c_response = ''B'', c_selected = True, c_alternative_number = Some 1,
            c_explanation = Some ''fine''\<rparr>,
          \<lparr>c_round = 1, c_response = ''B'', c_selected = True, c_alternative_number = Some 2,
            c_explanation = Some ''fine''\<rparr>]\<rparr>
   \<and> c_round \<lparr>c_round = 1, c_response = ''B'', c_selected = True, c_alternative_number = Some 1,
            c_explanation = Some ''fine''\<rparr>
     = c_round \<lparr>c_round = 1, c_response = ''B'', c_selected = True, c_alternative_number = Some 2,
            c_explanation = Some ''fine''\<rparr>
   \<and> c_response \<lparr>c_round = 1, c_response = ''B'', c_selected = True, c_alternative_number = Some 1,
            c_explanation = Some ''fine''\<rparr>
     = c_response \<lparr>c_round = 1, c_response = ''B'', c_selected = True, c_alternative_number = Some 2,
            c_explanation = Some ''fine''\<rparr>
   \<and> distinct (map c_response (filter (\<lambda>c. c_round c = 1)
         (r_thinking_history (projr (fst (think_and_respond (scripted 4300) ''T'' ''Explain recursion'' 2
            (fresh [''1'', ''A0'', ''A1'', ''A2'', ''2'' @ nl @ ''more concise''])))))))
   \<and> selected_in_round 1
         (r_thinking_history (projr (fst (think_and_respond (scripted 4300) ''T'' ''Explain recursion'' 2
            (fresh [''1'', ''A0'', ''A1'', ''A2'', ''2'' @ nl @ ''more concise'']))))) \<le> 1"
proof -
  let ?s = "fresh [''1'', ''A0'', ''B'', ''B'', ''1'' @ nl @ ''fine'']"
  let ?T = "think_and_respond (scripted 4300) ''T'' ''Explain recursion'' 2 ?s"
  let ?c0 = "\<lparr>c_round = 0, c_response = ''A0'', c_selected = True, c_alternative_number = None, c_explanation = None\<rparr>"
  let ?c1 = "\<lparr>c_round = 1, c_response = ''B'', c_selected = True, c_alternative_number = Some 1,
            c_explanation = Some ''fine''\<rparr>"
  let ?c2 = "\<lparr>c_round = 1, c_response = ''B'', c_selected = True, c_alternative_number = Some 2,
            c_explanation = Some ''fine''\<rparr>"
  let ?R = "\<lparr>r_response = ''B'', r_thinking_rounds = 1, r_thinking_history = [?c0, ?c1, ?c2]\<rparr>"
  have f: "fst ?T = Inr ?R" by code_simp
  from thinking_trace_selection[of "scripted 4300" "''T''" "''Explain recursion''" 2 ?s]
  obtain res where r: "fst ?T = Inr res"
    "\<forall>c1 \<in> set (r_thinking_history res). \<forall>c2 \<in> set (r_thinking_history res).
           c_round c1 = c_round c2 \<and> c_selected c1 \<and> c_selected c2 \<longrightarrow> c_response c1 = c_response c2"
    by blast
  from f r(1) have res: "res = ?R" by simp
  have m: "?c1 \<in> set (r_thinking_history res)" "?c2 \<in> set (r_thinking_history res)"
    unfolding res by simp_all
  have a: "c_round ?c1 = c_round ?c2 \<and> c_selected ?c1 \<and> c_selected ?c2" by simp
  have b: "c_response ?c1 = c_response ?c2"
    using r(2) m a by blast
  let ?s' = "fresh [''1'', ''A0'', ''A1'', ''A2'', ''2'' @ nl @ ''more concise'']"
  let ?T' = "think_and_respond (scripted 4300) ''T'' ''Explain recursion'' 2 ?s'"
  have d: "distinct (map c_response (filter (\<lambda>c. c_round c = 1) (r_thinking_history (projr (fst ?T')))))"
    by code_simp
  from thinking_trace_selection[of "scripted 4300" "''T''" "''Explain recursion''" 2 ?s']
  obtain res' where r': "fst ?T' = Inr res'"
    "\<forall>r. distinct (map c_response (filter (\<lambda>c. c_round c = r) (r_thinking_history res'))) \<longrightarrow>
           selected_in_round r (r_thinking_history res') \<le> 1"
    by blast
  have pr: "projr (fst ?T') = res'" using r'(1) by simp
  have c: "selected_in_round 1 (r_thinking_history (projr (fst ?T'))) \<le> 1"
    using r'(2) d unfolding pr by blast
  show ?thesis using f a b d c by blast
qed

text \<open>
  Claim C3, as stated, fails: in the scenario the trace has three candidates, the initial
  answer and the two alternatives of the one round, not four.
\<close>

theorem end_to_end_trace_size_counterexample:
  "length (r_thinking_history (projr (fst (think_and_respond (scripted 4300) ''T'' ''Explain recursion'' 2
          (fresh [''1'', ''A0'', ''A1'', ''A2'', ''2'' @ nl @ ''more concise'']))))) = 3"
  by code_simp

lemma upto_1_1: "[1..1::int] = [1]"
  by (simp add: upto.simps)

text \<open>
  Claim C3, amended. One round planned, two alternatives that differ from each other, the
  second different from the initial answer, and the evaluation reply \<^verbatim>\<open>2\<close>, newline,
  \<^verbatim>\<open>more concise\<close>: the trace has three candidates, the second alternative is the
  selected candidate of round 1 and carries the rationale, and a history of at most
  eight messages grows by exactly the user message and the assistant message.
\<close>

theorem end_to_end_scenario:
  assumes "a2 \<noteq> a0" and "a1 \<noteq> a2" and "length (conversation_history s) \<le> 8"
    and "backend s = [''1'', a0, a1, a2, ''2'' @ nl @ ''more concise'']"
  shows "fst (think_and_respond (scripted maxd) now prompt 2 s)
     = Inr \<lparr>r_response = a2, r_thinking_rounds = 1, r_thinking_history =
         [\<lparr>c_round = 0, c_response = a0, c_selected = True, c_alternative_number = None, c_explanation = None\<rparr>,
          \<lparr>c_round = 1, c_response = a1, c_selected = False, c_alternative_number = Some 1, c_explanation = None\<rparr>,
          \<lparr>c_round = 1, c_response = a2, c_selected = True, c_alternative_number = Some 2,
            c_explanation = Some ''more concise''\<rparr>]\<rparr>
   \<and> conversation_history (snd (think_and_respond (scripted maxd) now prompt 2 s))
     = conversation_history s @ [user prompt, assistant a2]
   \<and> length (conversation_history (snd (think_and_respond (scripted maxd) now prompt 2 s)))
     = length (conversation_history s) + 2"
proof -
  have pr: "parse_rounds maxd ''1'' = 1"
    by (auto simp: parse_rounds_def py_int_def isdigit_def isdecimal_def code_def digits_value_def)
  have pe: "parse_evaluation maxd (''2'' @ nl @ ''more concise'') a0 [a1, a2] = Inr (a2, ''more concise'')"
    by (auto simp: parse_defs)
  have n2: "nat 2 = Suc (Suc 0)" by simp
  show ?thesis
    using assms
    by (simp add: think_and_respond_def determine_thinking_rounds_def call_api_def scripted_def
        generate_alternatives_def evaluate_responses_def store_alternatives_def mark_selected_def
        pr pe[simplified] upto_1_1 n2 upt_rec Let_def)
qed

text \<open>The theorem of claim C3 at concrete inputs.\<close>

theorem end_to_end_scenario_witness:
  "''A2'' \<noteq> ''A0'' \<and> ''A1'' \<noteq> ''A2''
   \<and> length (conversation_history (fresh [''1'', ''A0'', ''A1'', ''A2'', ''2'' @ nl @ ''more concise''])) \<le> 8
   \<and> fst (think_and_respond (scripted 4300) ''T'' ''Explain recursion'' 2
          (fresh [''1'', ''A0'', ''A1'', ''A2'', ''2'' @ nl @ ''more concise'']))
     = Inr \<lparr>r_response = ''A2'', r_thinking_rounds = 1, r_thinking_history =
         [\<lparr>c_round = 0, c_response = ''A0'', c_selected = True, c_alternative_number = None, c_explanation = None\<rparr>,
          \<lparr>c_round = 1, c_response = ''A1'', c_selected = False, c_alternative_number = Some 1, c_explanation = None\<rparr>,
          \<lparr>c_round = 1, c_response = ''A2'', c_selected = True, c_alternative_number = Some 2,
            c_explanation = Some ''more concise''\<rparr>]\<rparr>
   \<and> conversation_history (snd (think_and_respond (scripted 4300) ''T'' ''Explain recursion'' 2
          (fresh [''1'', ''A0'', ''A1'', ''A2'', ''2'' @ nl @ ''more concise''])))
     = [user ''Explain recursion'', assistant ''A2'']"
proof -
  let ?s = "fresh [''1'', ''A0'', ''A1'', ''A2'', ''2'' @ nl @ ''more concise'']"
  have h1: "''A2'' \<noteq> ''A0''" by simp
  have h2: "''A1'' \<noteq> ''A2''" by simp
  have h3: "length (conversation_history ?s) \<le> 8" by (simp add: fresh_def)
  have h4: "backend ?s = [''1'', ''A0'', ''A1'', ''A2'', ''2'' @ nl @ ''more concise'']"
    by (simp add: fresh_def)
  have e: "conversation_history ?s = []" by (simp add: fresh_def)
  note t = end_to_end_scenario[OF h1 h2 h3 h4, of 4300 "''T''" "''Explain recursion''"]
  show ?thesis
    using h1 h2 h3 t[THEN conjunct1] t[THEN conjunct2, THEN conjunct1, unfolded e] by simp
qed

section \<open>Saving: properties\<close>

text \<open>
  The core does not read the files: a turn from a state with other files gives the same
  result and the same state, with those files.
\<close>

lemma call_api_files:
  "call_api rt msgs temp (s\<lparr>files := f\<rparr>) = apsnd (\<lambda>s'. s'\<lparr>files := f\<rparr>) (call_api rt msgs temp s)"
  by (simp add: call_api_def split: prod.splits)

lemma determine_thinking_rounds_files:
  "determine_thinking_rounds rt prompt (s\<lparr>files := f\<rparr>) =
     apsnd (\<lambda>s'. s'\<lparr>files := f\<rparr>) (determine_thinking_rounds rt prompt s)"
  by (simp add: determine_thinking_rounds_def call_api_files split: prod.splits)

lemma generate_loop_files:
  "generate_loop rt base_response prompt idx alternatives (s\<lparr>files := f\<rparr>) =
     apsnd (\<lambda>s'. s'\<lparr>files := f\<rparr>) (generate_loop rt base_response prompt idx alternatives s)"
proof (induction idx arbitrary: alternatives s)
  case Nil
  show ?case by simp
next
  case (Cons i rest)
  show ?case
    by (simp add: call_api_files Cons.IH split: prod.splits)
qed

lemma generate_alternatives_files:
  "generate_alternatives rt base_response prompt num_alternatives (s\<lparr>files := f\<rparr>) =
     apsnd (\<lambda>s'. s'\<lparr>files := f\<rparr>) (generate_alternatives rt base_response prompt num_alternatives s)"
  by (simp add: generate_alternatives_def generate_loop_files)

lemma evaluate_responses_files:
  "evaluate_responses rt prompt current_best alternatives (s\<lparr>files := f\<rparr>) =
     apsnd (\<lambda>s'. s'\<lparr>files := f\<rparr>) (evaluate_responses rt prompt current_best alternatives s)"
  by (simp add: evaluate_responses_def call_api_files split: prod.splits)

lemma rounds_loop_files:
  "rounds_loop rt user_input num_alternatives rs current_best thinking_history (s\<lparr>files := f\<rparr>) =
     apsnd (\<lambda>s'. s'\<lparr>files := f\<rparr>)
       (rounds_loop rt user_input num_alternatives rs current_best thinking_history s)"
proof (induction rs arbitrary: current_best thinking_history s)
  case Nil
  show ?case by simp
next
  case (Cons round_num rest)
  show ?case
    by (simp add: generate_alternatives_files evaluate_responses_files Cons.IH Let_def
        split: prod.splits sum.splits)
qed

lemma think_and_respond_files:
  "think_and_respond rt now user_input num_alternatives (s\<lparr>files := f\<rparr>) =
     apsnd (\<lambda>s'. s'\<lparr>files := f\<rparr>) (think_and_respond rt now user_input num_alternatives s)"
  by (simp add: think_and_respond_def determine_thinking_rounds_files call_api_files rounds_loop_files
      Let_def split: prod.splits sum.splits)

lemma turn_outcome_files:
  "turn_outcome rt now user_input num_alternatives (s\<lparr>files := f\<rparr>) =
     turn_outcome rt now user_input num_alternatives s"
  by (simp add: turn_outcome_def think_and_respond_files session_state_def split: prod.splits)

lemma write_file_only_files:
  "snd (write_file rt filename doc s) = s\<lparr>files := files (snd (write_file rt filename doc s))\<rparr>"
  by (simp add: write_file_def)

lemma save_conversation_only_files:
  "snd (save_conversation rt stamp now filename s) =
     s\<lparr>files := files (snd (save_conversation rt stamp now filename s))\<rparr>"
  unfolding save_conversation_def by (rule write_file_only_files)

lemma save_full_log_only_files:
  "snd (save_full_log rt stamp now filename s) =
     s\<lparr>files := files (snd (save_full_log rt stamp now filename s))\<rparr>"
  unfolding save_full_log_def by (rule write_file_only_files)

lemma save_response_as_markdown_only_files:
  "snd (save_response_as_markdown rt stamp user_input result folder s) =
     s\<lparr>files := files (snd (save_response_as_markdown rt stamp user_input result folder s))\<rparr>"
  by (simp add: save_response_as_markdown_def write_file_def)

lemma session_state_files: "session_state (s\<lparr>files := f\<rparr>) = session_state s"
  by (simp add: session_state_def)

text \<open>
  Claim C10. \<^verbatim>\<open>save_conversation\<close>, \<^verbatim>\<open>save_full_log\<close> and
  \<^verbatim>\<open>save_response_as_markdown\<close> leave the conversation history and the full thinking
  log as they were, whether the write succeeds or raises; and a later turn run after any
  of them gives the result, the session and the requests it gives without the save.
\<close>

theorem save_operations_frame:
  "session_state (snd (save_conversation rt stamp now filename s)) = session_state s
   \<and> session_state (snd (save_full_log rt stamp now filename s)) = session_state s
   \<and> session_state (snd (save_response_as_markdown rt stamp asked result folder s)) = session_state s
   \<and> turn_outcome rt later user_input num_alternatives (snd (save_conversation rt stamp now filename s))
       = turn_outcome rt later user_input num_alternatives s
   \<and> turn_outcome rt later user_input num_alternatives (snd (save_full_log rt stamp now filename s))
       = turn_outcome rt later user_input num_alternatives s
   \<and> turn_outcome rt later user_input num_alternatives
         (snd (save_response_as_markdown rt stamp asked result folder s))
       = turn_outcome rt later user_input num_alternatives s"
proof -
  have a: "session_state (snd (save_conversation rt stamp now filename s)) = session_state s"
    by (subst save_conversation_only_files) (rule session_state_files)
  have b: "session_state (snd (save_full_log rt stamp now filename s)) = session_state s"
    by (subst save_full_log_only_files) (rule session_state_files)
  have c: "session_state (snd (save_response_as_markdown rt stamp asked result folder s)) = session_state s"
    by (subst save_response_as_markdown_only_files) (rule session_state_files)
  have d: "turn_outcome rt later user_input num_alternatives (snd (save_conversation rt stamp now filename s))
       = turn_outcome rt later user_input num_alternatives s"
    by (subst save_conversation_only_files) (rule turn_outcome_files)
  have e: "turn_outcome rt later user_input num_alternatives (snd (save_full_log rt stamp now filename s))
       = turn_outcome rt later user_input num_alternatives s"
    by (subst save_full_log_only_files) (rule turn_outcome_files)
  have f: "turn_outcome rt later user_input num_alternatives
         (snd (save_response_as_markdown rt stamp asked result folder s))
       = turn_outcome rt later user_input num_alternatives s"
    by (subst save_response_as_markdown_only_files) (rule turn_outcome_files)
  show ?thesis using a b c d e f by blast
qed

text \<open>The theorem of claim C10 at concrete inputs.\<close>

theorem save_operations_frame_witness:
  "session_state (snd (save_conversation (scripted 4300) ''20260101_120000'' ''2026-01-01T12:00:00'' None full_session))
     = session_state full_session
   \<and> session_state (snd (save_full_log (scripted 4300) ''20260101_120000'' ''2026-01-01T12:00:00'' None full_session))
     = session_state full_session
   \<and> session_state (snd (save_response_as_markdown (scripted 4300) ''20260101_120000'' ''q5'' sample_result
        ''responses'' full_session)) = session_state full_session
   \<and> turn_outcome (scripted 4300) ''2026-01-01T12:05:00'' ''q6'' 1
        (snd (save_conversation (scripted 4300) ''20260101_120000'' ''2026-01-01T12:00:00'' None full_session))
       = turn_outcome (scripted 4300) ''2026-01-01T12:05:00'' ''q6'' 1 full_session
   \<and> turn_outcome (scripted 4300) ''2026-01-01T12:05:00'' ''q6'' 1
        (snd (save_full_log (scripted 4300) ''20260101_120000'' ''2026-01-01T12:00:00'' None full_session))
       = turn_outcome (scripted 4300) ''2026-01-01T12:05:00'' ''q6'' 1 full_session
   \<and> turn_outcome (scripted 4300) ''2026-01-01T12:05:00'' ''q6'' 1
        (snd (save_response_as_markdown (scripted 4300) ''20260101_120000'' ''q5'' sample_result
           ''responses'' full_session))
       = turn_outcome (scripted 4300) ''2026-01-01T12:05:00'' ''q6'' 1 full_session"
  by (rule save_operations_frame)

end
